theory Spec2Isabelle
  imports Main
begin

section \<open>Data model of the OpenAPI MCP server\<close>

text \<open>
  The JavaScript strings of the program are modelled as HOL strings: one \<^typ>\<open>char\<close>
  stands for one code unit, so \<^term>\<open>length\<close> is the \<^verbatim>\<open>.length\<close> of the source.
  Optional fields (\<^verbatim>\<open>field?: T\<close>) are \<^typ>\<open>'a option\<close>; \<^verbatim>\<open>undefined\<close> is \<^term>\<open>None\<close>.
  Objects used as dictionaries are association lists in the enumeration order of
  \<^verbatim>\<open>Object.entries\<close>; their keys are distinct. Fields that several interfaces share
  (\<^verbatim>\<open>servers\<close>, \<^verbatim>\<open>description\<close>), and \<^verbatim>\<open>in\<close> and \<^verbatim>\<open>method\<close>, carry a prefix here.
\<close>

text \<open>Values typed \<^verbatim>\<open>any\<close> in the source: parsed JSON or YAML. The program carries them
  along and looks at nothing but their truthiness; numbers are kept as whole numbers.\<close>

datatype json =
  JNull
  | JBool bool
  | JNum int
  | JStr string
  | JArr "json list"
  | JObj "(string \<times> json) list"

text \<open>JavaScript truthiness, as used by \<^verbatim>\<open>||\<close>, \<^verbatim>\<open>!\<close>, \<^verbatim>\<open>? :\<close> and \<^verbatim>\<open>filter(Boolean)\<close>.\<close>

fun truthy :: "json \<Rightarrow> bool" where
  "truthy JNull = False"
| "truthy (JBool b) = b"
| "truthy (JNum n) = (n \<noteq> 0)"
| "truthy (JStr s) = (s \<noteq> [])"
| "truthy (JArr xs) = True"
| "truthy (JObj kvs) = True"

definition truthyStr :: "string option \<Rightarrow> bool" where
  "truthyStr v = (case v of None \<Rightarrow> False | Some s \<Rightarrow> s \<noteq> [])"

record Server =
  url :: string
  server_description :: "string option"

record ParamSchema =
  schema_type :: "string option"
  schema_enum :: "string list option"
  schema_default :: "json option"

record Parameter =
  name :: string
  param_in :: string
  required :: "bool option"
  schema :: "ParamSchema option"
  param_description :: "string option"

record Operation =
  operationId :: "string option"
  op_servers :: "Server list option"
  summary :: "string option"
  op_description :: "string option"
  parameters :: "Parameter list option"
  requestBody :: "json option"
  responses :: json

record PathItem =
  get :: "Operation option"
  post :: "Operation option"
  put :: "Operation option"
  delete :: "Operation option"
  patch :: "Operation option"

record Info =
  title :: string
  version :: string
  description :: "string option"

text \<open>
  \<^verbatim>\<open>OpenapiDocument\<close>, with the \<^verbatim>\<open>swagger\<close> field that the handlers read through
  \<^verbatim>\<open>(openapiJson as any)?.swagger\<close>. The interface declares \<^verbatim>\<open>info\<close> and \<^verbatim>\<open>paths\<close>
  as required, but the code guards both (\<^verbatim>\<open>if (openapi.info)\<close>, \<^verbatim>\<open>if (!openapi.paths)\<close>),
  so both are optional here.
\<close>

record OpenapiDocument =
  tags :: "json option"
  components :: "json option"
  webhooks :: "json option"
  openapi :: "string option"
  servers :: "Server list option"
  info :: "Info option"
  paths :: "(string \<times> PathItem) list option"
  swagger :: "json option"

text \<open>The value returned by \<^verbatim>\<open>matchOperation\<close>: \<^verbatim>\<open>{ operation, originalPath, method }\<close>
  (the field \<^verbatim>\<open>method\<close> is \<open>matched_method\<close> here).\<close>

record MatchedOperation =
  operation :: "Operation option"
  originalPath :: string
  matched_method :: string

section \<open>Operation matcher\<close>

text \<open>The literal \<^verbatim>\<open>["get", "post", "put", "patch", "delete"]\<close> of both loops.\<close>

definition methods :: "string list" where
  "methods = [''get'', ''post'', ''put'', ''patch'', ''delete'']"

text \<open>\<^verbatim>\<open>pathItem[method as keyof typeof pathItem]\<close>.\<close>

definition methodOp :: "PathItem \<Rightarrow> string \<Rightarrow> Operation option" where
  "methodOp pathItem m =
     (if m = ''get'' then get pathItem
      else if m = ''post'' then post pathItem
      else if m = ''put'' then put pathItem
      else if m = ''delete'' then delete pathItem
      else if m = ''patch'' then patch pathItem
      else None)"

text \<open>\<^verbatim>\<open>String.prototype.toUpperCase\<close> and \<^verbatim>\<open>toLowerCase\<close> on ASCII letters; the program
  applies them to method names only.\<close>

definition upperChar :: "char \<Rightarrow> char" where
  "upperChar c =
     (case map_of (zip ''abcdefghijklmnopqrstuvwxyz'' ''ABCDEFGHIJKLMNOPQRSTUVWXYZ'') c of
        Some u \<Rightarrow> u
      | None \<Rightarrow> c)"

definition lowerChar :: "char \<Rightarrow> char" where
  "lowerChar c =
     (case map_of (zip ''ABCDEFGHIJKLMNOPQRSTUVWXYZ'' ''abcdefghijklmnopqrstuvwxyz'') c of
        Some l \<Rightarrow> l
      | None \<Rightarrow> c)"

definition toUpperCase :: "string \<Rightarrow> string" where
  "toUpperCase s = map upperChar s"

definition toLowerCase :: "string \<Rightarrow> string" where
  "toLowerCase s = map lowerChar s"

text \<open>The predicate given to \<^verbatim>\<open>find\<close>: \<^verbatim>\<open>operation?.operationId === normalizedPathname\<close>.\<close>

definition idMatches :: "PathItem \<Rightarrow> string \<Rightarrow> string \<Rightarrow> bool" where
  "idMatches pathItem normalizedPathname httpMethod =
     (case methodOp pathItem httpMethod of
        None \<Rightarrow> False
      | Some oper \<Rightarrow> operationId oper = Some normalizedPathname)"

text \<open>The loop \<^verbatim>\<open>for (const [path, pathItem] of Object.entries(openapi.paths))\<close>.\<close>

fun matchById :: "(string \<times> PathItem) list \<Rightarrow> string \<Rightarrow> MatchedOperation option" where
  "matchById [] normalizedPathname = None"
| "matchById ((path, pathItem) # rest) normalizedPathname =
     (case find (idMatches pathItem normalizedPathname) methods of
        Some matchingMethod \<Rightarrow>
          Some \<lparr>operation = methodOp pathItem matchingMethod,
                originalPath = path,
                matched_method = toUpperCase matchingMethod\<rparr>
      | None \<Rightarrow> matchById rest normalizedPathname)"

text \<open>\<^verbatim>\<open>openapi.paths[pathname]?.get\<close>.\<close>

definition directGet :: "(string \<times> PathItem) list \<Rightarrow> string \<Rightarrow> Operation option" where
  "directGet ps pathname = Option.bind (map_of ps pathname) get"

definition matchOperation :: "OpenapiDocument \<Rightarrow> string \<Rightarrow> MatchedOperation option" where
  "matchOperation doc pathname =
     (case paths doc of
        None \<Rightarrow> None
      | Some ps \<Rightarrow>
          (case directGet ps pathname of
             Some directMatch \<Rightarrow>
               Some \<lparr>operation = Some directMatch, originalPath = pathname, matched_method = ''GET''\<rparr>
           | None \<Rightarrow> matchById ps (drop 1 pathname)))"

text \<open>
  The matching policy in the words of the specification: every operation of the
  document, in path-then-method order.
\<close>

definition itemOperations :: "string \<times> PathItem \<Rightarrow> (string \<times> string \<times> Operation) list" where
  "itemOperations e =
     concat (map (\<lambda>m. case methodOp (snd e) m of None \<Rightarrow> [] | Some oper \<Rightarrow> [(fst e, m, oper)])
       methods)"

definition allOperations :: "(string \<times> PathItem) list \<Rightarrow> (string \<times> string \<times> Operation) list" where
  "allOperations ps = concat (map itemOperations ps)"

definition hasId :: "string \<Rightarrow> string \<times> string \<times> Operation \<Rightarrow> bool" where
  "hasId n e = (operationId (snd (snd e)) = Some n)"

definition asMatch :: "string \<times> string \<times> Operation \<Rightarrow> MatchedOperation" where
  "asMatch e = \<lparr>operation = Some (snd (snd e)), originalPath = fst e, matched_method = toUpperCase (fst (snd e))\<rparr>"

section \<open>Strings and serialisation helpers\<close>

text \<open>\<^verbatim>\<open>Array.prototype.join\<close>.\<close>

fun join :: "string \<Rightarrow> string list \<Rightarrow> string" where
  "join sep [] = []"
| "join sep [x] = x"
| "join sep (x # y # ys) = x @ sep @ join sep (y # ys)"

text \<open>\<^verbatim>\<open>String.prototype.split\<close> with a one-character separator; the result is never empty.\<close>

fun splitStr :: "char \<Rightarrow> string \<Rightarrow> string list" where
  "splitStr sep [] = [[]]"
| "splitStr sep (c # cs) =
     (if c = sep then [] # splitStr sep cs
      else (case splitStr sep cs of [] \<Rightarrow> [[c]] | w # ws \<Rightarrow> (c # w) # ws))"

text \<open>\<^verbatim>\<open>String.prototype.startsWith\<close>.\<close>

definition startsWith :: "string \<Rightarrow> string \<Rightarrow> bool" where
  "startsWith s p = (take (length p) s = p)"

text \<open>Decimal rendering of an integer, as a template literal prints a whole number.\<close>

definition digitChar :: "nat \<Rightarrow> char" where
  "digitChar n = ''0123456789'' ! n"

fun natToString :: "nat \<Rightarrow> string" where
  "natToString n = (if n < 10 then [digitChar n] else natToString (n div 10) @ [digitChar (n mod 10)])"

declare natToString.simps [simp del]

definition numberToString :: "int \<Rightarrow> string" where
  "numberToString i = (if i < 0 then ''-'' @ natToString (nat (- i)) else natToString (nat i))"

text \<open>
  \<^verbatim>\<open>JSON.stringify\<close> of a string: the quotation mark and the reverse solidus are escaped,
  control characters get their short escape or \<^verbatim>\<open>\u00xx\<close> with lower-case digits.
\<close>

definition hexDigit :: "nat \<Rightarrow> char" where
  "hexDigit n = ''0123456789abcdef'' ! n"

definition jsonEscape :: "char \<Rightarrow> string" where
  "jsonEscape c =
     (if c = CHR 0x22 then [CHR 0x5C, CHR 0x22]
      else if c = CHR 0x5C then [CHR 0x5C, CHR 0x5C]
      else if c = CHR 0x08 then [CHR 0x5C, CHR ''b'']
      else if c = CHR 0x0C then [CHR 0x5C, CHR ''f'']
      else if c = CHR 0x0A then [CHR 0x5C, CHR ''n'']
      else if c = CHR 0x0D then [CHR 0x5C, CHR ''r'']
      else if c = CHR 0x09 then [CHR 0x5C, CHR ''t'']
      else if (of_char c :: nat) < 32 then
        [CHR 0x5C, CHR ''u'', CHR ''0'', CHR ''0'',
         hexDigit ((of_char c :: nat) div 16), hexDigit ((of_char c :: nat) mod 16)]
      else [c])"

definition quoteJSONString :: "string \<Rightarrow> string" where
  "quoteJSONString s = [CHR 0x22] @ concat (map jsonEscape s) @ [CHR 0x22]"

section \<open>Overview generator\<close>

text \<open>One element of \<^verbatim>\<open>items\<close>: \<^verbatim>\<open>{ operationId, pathPart, summaryPart, openapiUrl }\<close>.\<close>

record Item =
  item_operationId :: string
  pathPart :: string
  summaryPart :: string
  item_openapiUrl :: string

text \<open>\<^verbatim>\<open>JSON.stringify(items)\<close>: the keys in the order of the object literal.\<close>

definition stringifyItem :: "Item \<Rightarrow> string" where
  "stringifyItem item =
     ''{'' @ quoteJSONString ''operationId'' @ '':'' @ quoteJSONString (item_operationId item)
     @ '','' @ quoteJSONString ''pathPart'' @ '':'' @ quoteJSONString (pathPart item)
     @ '','' @ quoteJSONString ''summaryPart'' @ '':'' @ quoteJSONString (summaryPart item)
     @ '','' @ quoteJSONString ''openapiUrl'' @ '':'' @ quoteJSONString (item_openapiUrl item)
     @ ''}''"

definition stringifyItems :: "Item list \<Rightarrow> string" where
  "stringifyItems items = ''['' @ join '','' (map stringifyItem items) @ '']''"

text \<open>
  \<^verbatim>\<open>getServerOrigin\<close>. The platform's URL parser is a parameter: \<open>urlOrigin s\<close> is
  \<^verbatim>\<open>new URL(s).origin\<close>, and \<^term>\<open>None\<close> when the constructor throws. The first argument is
  \<^term>\<open>None\<close> for the call with \<^verbatim>\<open>undefined\<close>.
\<close>

definition getServerOrigin ::
  "(string \<Rightarrow> string option) \<Rightarrow> Operation option \<Rightarrow> Server list \<Rightarrow> string" where
  "getServerOrigin urlOrigin oper rootServers =
     (let srvs = (case Option.bind oper op_servers of Some s \<Rightarrow> s | None \<Rightarrow> rootServers) in
      case srvs of
        [] \<Rightarrow> []
      | s # _ \<Rightarrow>
          (case urlOrigin (url s) of
             Some origin \<Rightarrow> origin
           | None \<Rightarrow> hd (splitStr CHR ''/'' (url s))))"

text \<open>\<^verbatim>\<open>openapi.servers || []\<close>.\<close>

definition rootServersOf :: "OpenapiDocument \<Rightarrow> Server list" where
  "rootServersOf doc = (case servers doc of None \<Rightarrow> [] | Some s \<Rightarrow> s)"

text \<open>\<^verbatim>\<open>`${p.name}=${p.schema?.type || p.name}`\<close>.\<close>

definition paramPair :: "Parameter \<Rightarrow> string" where
  "paramPair p =
     name p @ ''='' @
     (case Option.bind (schema p) schema_type of
        None \<Rightarrow> name p
      | Some t \<Rightarrow> if t \<noteq> [] then t else name p)"

text \<open>\<^verbatim>\<open>queryParams\<close> and \<^verbatim>\<open>queryString\<close>.\<close>

definition queryString :: "Operation \<Rightarrow> string" where
  "queryString oper =
     (case parameters oper of
        None \<Rightarrow> []
      | Some ps \<Rightarrow>
          (let queryParams = join ''&'' (map paramPair (filter (\<lambda>p. param_in p = ''query'') ps))
           in if queryParams \<noteq> [] then ''?'' @ queryParams else []))"

text \<open>The body of the inner loop, from \<^verbatim>\<open>serverOrigin\<close> to the pushed item.\<close>

definition makeItem ::
  "(string \<Rightarrow> string option) \<Rightarrow> string \<Rightarrow> Server list \<Rightarrow> string \<Rightarrow> string \<Rightarrow> Operation \<Rightarrow> Item" where
  "makeItem urlOrigin hostname rootServers path m oper =
     (let serverOrigin = getServerOrigin urlOrigin (Some oper) rootServers;
          opId = (case operationId oper of None \<Rightarrow> [] | Some s \<Rightarrow> if s \<noteq> [] then s else []);
          summaryP = (case summary oper of None \<Rightarrow> [] | Some s \<Rightarrow> if s \<noteq> [] then '' - '' @ s else []);
          pathP = toUpperCase m @ '' '' @ serverOrigin @ path @ queryString oper;
          openapiU = ''https://oapis.org/openapi/'' @ hostname @ (if opId \<noteq> [] then ''/'' @ opId else path)
      in \<lparr>item_operationId = opId, pathPart = pathP, summaryPart = summaryP, item_openapiUrl = openapiU\<rparr>)"

text \<open>\<^verbatim>\<open>for (const method of methods)\<close>: \<^verbatim>\<open>continue\<close> when the operation is missing, push otherwise.\<close>

definition methodStep ::
  "(string \<Rightarrow> string option) \<Rightarrow> string \<Rightarrow> Server list \<Rightarrow> string \<Rightarrow> PathItem \<Rightarrow> Item list \<Rightarrow> string \<Rightarrow> Item list" where
  "methodStep urlOrigin hostname rootServers path pathItem items m =
     (case methodOp pathItem m of
        None \<Rightarrow> items
      | Some oper \<Rightarrow> items @ [makeItem urlOrigin hostname rootServers path m oper])"

definition pathStep ::
  "(string \<Rightarrow> string option) \<Rightarrow> string \<Rightarrow> Server list \<Rightarrow> Item list \<Rightarrow> string \<times> PathItem \<Rightarrow> Item list" where
  "pathStep urlOrigin hostname rootServers items e =
     foldl (methodStep urlOrigin hostname rootServers (fst e) (snd e)) items methods"

definition collectItems :: "(string \<Rightarrow> string option) \<Rightarrow> string \<Rightarrow> OpenapiDocument \<Rightarrow> Item list" where
  "collectItems urlOrigin hostname doc =
     (case paths doc of
        None \<Rightarrow> []
      | Some ps \<Rightarrow> foldl (pathStep urlOrigin hostname (rootServersOf doc)) [] ps)"

text \<open>The lines pushed by \<^verbatim>\<open>if (openapi.info) { ... }\<close>.\<close>

definition headerLines :: "(string \<Rightarrow> string option) \<Rightarrow> OpenapiDocument \<Rightarrow> string list" where
  "headerLines urlOrigin doc =
     (case info doc of
        None \<Rightarrow> []
      | Some i \<Rightarrow>
          [title i @ '' v'' @ version i @ '' - '' @ getServerOrigin urlOrigin None (rootServersOf doc)]
          @ (case description i of None \<Rightarrow> [] | Some d \<Rightarrow> if d \<noteq> [] then [d] else [])
          @ [[]])"

definition itemLine :: "bool \<Rightarrow> Item \<Rightarrow> string" where
  "itemLine isLong item =
     ''- '' @ item_operationId item @ (if isLong then '' '' else '' '' @ pathPart item)
     @ summaryPart item @ '' ( Spec: '' @ item_openapiUrl item @ '' )''"

definition banner :: "string \<Rightarrow> int \<Rightarrow> string" where
  "banner hostname endpointCount =
     ''Below is an overview of the '' @ hostname
     @ '' openapi in simple language. This API contains '' @ numberToString endpointCount
     @ '' endpoints. For more detailed information of an endpoint, visit https://oapis.org/summary/''
     @ hostname @ ''/[idOrRoute]''"

text \<open>The array \<^verbatim>\<open>output\<close> after the items have been pushed, and the count taken from it.\<close>

definition outputLines :: "(string \<Rightarrow> string option) \<Rightarrow> string \<Rightarrow> OpenapiDocument \<Rightarrow> string list" where
  "outputLines urlOrigin hostname doc =
     (let items = collectItems urlOrigin hostname doc;
          isLong = (50000 < length (stringifyItems items))
      in headerLines urlOrigin doc @ map (itemLine isLong) items)"

definition endpointCount :: "(string \<Rightarrow> string option) \<Rightarrow> string \<Rightarrow> OpenapiDocument \<Rightarrow> int" where
  "endpointCount urlOrigin hostname doc = int (length (outputLines urlOrigin hostname doc)) - 3"

definition generateOverview :: "(string \<Rightarrow> string option) \<Rightarrow> string \<Rightarrow> OpenapiDocument \<Rightarrow> string" where
  "generateOverview urlOrigin hostname doc =
     join [CHR 0x0A]
       ([banner hostname (endpointCount urlOrigin hostname doc), []]
        @ outputLines urlOrigin hostname doc)"

section \<open>Tool handlers\<close>

text \<open>The content-block result \<^verbatim>\<open>{ content: [{ type: "text", text }], isError }\<close>; the
  stdio handlers leave \<^verbatim>\<open>isError\<close> out on success.\<close>

record ToolResult =
  content_text :: string
  isError :: "bool option"

text \<open>What \<^verbatim>\<open>searchOpenapi\<close> returns; \<^verbatim>\<open>openapiJson\<close> is \<^term>\<open>None\<close> for a falsy value.\<close>

record SearchResult =
  openapiUrl :: string
  openapiJson :: "OpenapiDocument option"

text \<open>A \<^verbatim>\<open>fetch\<close> response: \<^verbatim>\<open>response.ok\<close> and \<^verbatim>\<open>await response.text()\<close>.\<close>

record Response =
  ok :: bool
  body :: string

text \<open>
  The collaborators outside the program. A thrown \<^verbatim>\<open>Error\<close> is \<open>Inl\<close> of its message.
  \<^item> \<open>env_urlOrigin\<close>: \<^verbatim>\<open>new URL(s).origin\<close>, \<^term>\<open>None\<close> when it throws;
  \<^item> \<open>env_searchOpenapi\<close>: the outcome of \<^verbatim>\<open>searchOpenapi(id)\<close> (discovery, download, parsing);
  \<^item> \<open>env_fetchJson\<close>: \<^verbatim>\<open>fetch(url).then(res => res.json())\<close> under the 10 second abort,
    \<^term>\<open>None\<close> when the promise rejects;
  \<^item> \<open>env_dereferenceSync\<close>: the dereferencing library, \<^term>\<open>None\<close> when it throws;
  \<^item> \<open>env_dump\<close>: the YAML serialiser, total on parsed documents;
  \<^item> \<open>env_fetch\<close> and \<open>env_encodeURIComponent\<close>: used by the stdio handlers.
\<close>

record Env =
  env_urlOrigin :: "string \<Rightarrow> string option"
  env_searchOpenapi :: "string \<Rightarrow> string + SearchResult option"
  env_fetchJson :: "string \<Rightarrow> OpenapiDocument option"
  env_dereferenceSync :: "OpenapiDocument \<Rightarrow> OpenapiDocument option"
  env_dump :: "OpenapiDocument \<Rightarrow> string"
  env_fetch :: "string \<Rightarrow> string + Response"
  env_encodeURIComponent :: "string \<Rightarrow> string"

definition convertSwaggerToOpenapi :: "Env \<Rightarrow> string \<Rightarrow> OpenapiDocument option" where
  "convertSwaggerToOpenapi env swaggerUrl =
     env_fetchJson env (''https://converter.swagger.io/api/convert?url='' @ swaggerUrl)"

text \<open>\<^verbatim>\<open>isSwagger\<close>, computed the same way in both handlers.\<close>

definition isSwagger :: "OpenapiDocument \<Rightarrow> bool" where
  "isSwagger openapiJ =
     ((case swagger openapiJ of None \<Rightarrow> False | Some v \<Rightarrow> truthy v)
      \<or> \<not> truthyStr (openapi openapiJ)
      \<or> \<not> (case openapi openapiJ of None \<Rightarrow> False | Some v \<Rightarrow> startsWith v ''3.''))"

text \<open>
  The first half of both \<^verbatim>\<open>try\<close> blocks (\<^verbatim>\<open>handleGetApiOverview\<close> and
  \<^verbatim>\<open>handleGetApiOperation\<close> share it line for line): from \<^verbatim>\<open>searchOpenapi(id)\<close> to the
  check of \<^verbatim>\<open>convertedOpenapi?.openapi\<close>. \<open>Inl\<close> is the message of the thrown error.
\<close>

definition convertedOpenapi :: "Env \<Rightarrow> string \<Rightarrow> string + OpenapiDocument" where
  "convertedOpenapi env ident =
     (case env_searchOpenapi env ident of
        Inl msg \<Rightarrow> Inl msg
      | Inr None \<Rightarrow> Inl ''OpenAPI not found''
      | Inr (Some found) \<Rightarrow>
          (case openapiJson found of
             None \<Rightarrow> Inl ''Could not parse OpenAPI JSON''
           | Some openapiJ \<Rightarrow>
               (case (if isSwagger openapiJ
                      then convertSwaggerToOpenapi env (openapiUrl found)
                      else Some openapiJ) of
                  None \<Rightarrow> Inl ''Conversion failed''
                | Some converted \<Rightarrow>
                    if truthyStr (openapi converted) then Inr converted
                    else Inl ''Conversion failed'')))"

text \<open>The \<^verbatim>\<open>catch\<close> clause of the handlers.\<close>

definition errorResult :: "string \<Rightarrow> ToolResult" where
  "errorResult msg = \<lparr>content_text = ''Error: '' @ msg, isError = Some True\<rparr>"

definition tooLargeMessage :: string where
  "tooLargeMessage =
     ''The OpenAPI specification is too large to process with this MCP. Please try a different OpenAPI.''"

definition handleGetApiOverview :: "Env \<Rightarrow> string \<Rightarrow> ToolResult" where
  "handleGetApiOverview env ident =
     (if ident = [] then
        \<lparr>content_text = ''Error: '' @ [CHR 0x27] @ ''id'' @ [CHR 0x27] @ '' parameter is required'',
         isError = Some True\<rparr>
      else
        (case convertedOpenapi env ident of
           Inl msg \<Rightarrow> errorResult msg
         | Inr converted \<Rightarrow>
             (let overview = generateOverview (env_urlOrigin env) ident converted in
              if 250000 < length overview then errorResult tooLargeMessage
              else \<lparr>content_text = overview, isError = Some False\<rparr>)))"

text \<open>The stdio handler \<^verbatim>\<open>HANDLERS.getApiOverview\<close>, which fetches the overview text.\<close>

definition getApiOverview :: "Env \<Rightarrow> string \<Rightarrow> ToolResult" where
  "getApiOverview env ident =
     (case env_fetch env (''https://oapis.org/overview/'' @ env_encodeURIComponent env ident) of
        Inl msg \<Rightarrow> errorResult msg
      | Inr response \<Rightarrow>
          if \<not> ok response then errorResult (''API error: '' @ body response)
          else
            (let responseContent = body response;
                 tooBig = (250000 < length responseContent)
             in if tooBig then errorResult tooLargeMessage
                else \<lparr>content_text = responseContent, isError = None\<rparr>))"

text \<open>The identifiers collected for the not-found message: per path item
  \<^verbatim>\<open>[get, post, delete, put, patch]\<close>, \<^verbatim>\<open>.filter(Boolean)\<close>, then \<^verbatim>\<open>.flat()\<close>.\<close>

definition itemOperationIds :: "PathItem \<Rightarrow> string list" where
  "itemOperationIds item =
     concat (map (\<lambda>oper. case Option.bind oper operationId of
                            None \<Rightarrow> []
                          | Some s \<Rightarrow> if s \<noteq> [] then [s] else [])
       [get item, post item, delete item, put item, patch item])"

definition operationIds :: "(string \<times> PathItem) list \<Rightarrow> string list" where
  "operationIds ps = concat (map (\<lambda>e. itemOperationIds (snd e)) ps)"

definition routes :: "(string \<times> PathItem) list \<Rightarrow> string list" where
  "routes ps = map fst ps"

definition notFoundMessage :: "(string \<times> PathItem) list \<Rightarrow> string" where
  "notFoundMessage ps =
     ''Operation wasn'' @ [CHR 0x27] @ ''t found. Available IDs: '' @ join '', '' (operationIds ps)
     @ ''. Routes: '' @ join '', '' (routes ps)"

text \<open>The branch \<^verbatim>\<open>if (!op?.operation)\<close>: \<^verbatim>\<open>Object.values\<close> of a missing \<^verbatim>\<open>paths\<close> throws a
  \<^verbatim>\<open>TypeError\<close>, which the outer \<^verbatim>\<open>catch\<close> reports like any other error.\<close>

definition notFound :: "OpenapiDocument \<Rightarrow> ToolResult" where
  "notFound converted =
     (case paths converted of
        None \<Rightarrow> errorResult ''Cannot convert undefined or null to object''
      | Some ps \<Rightarrow> errorResult (notFoundMessage ps))"

text \<open>\<^verbatim>\<open>{ [op.method.toLowerCase()]: op.operation }\<close>.\<close>

definition emptyItem :: PathItem where
  "emptyItem = \<lparr>get = None, post = None, put = None, delete = None, patch = None\<rparr>"

definition singleMethodItem :: "string \<Rightarrow> Operation \<Rightarrow> PathItem" where
  "singleMethodItem key oper =
     (if key = ''get'' then emptyItem\<lparr>get := Some oper\<rparr>
      else if key = ''post'' then emptyItem\<lparr>post := Some oper\<rparr>
      else if key = ''put'' then emptyItem\<lparr>put := Some oper\<rparr>
      else if key = ''delete'' then emptyItem\<lparr>delete := Some oper\<rparr>
      else if key = ''patch'' then emptyItem\<lparr>patch := Some oper\<rparr>
      else emptyItem)"

text \<open>\<^verbatim>\<open>subset\<close>: the document with \<^verbatim>\<open>paths\<close> replaced by the matched pair.\<close>

definition subsetOf :: "OpenapiDocument \<Rightarrow> MatchedOperation \<Rightarrow> Operation \<Rightarrow> OpenapiDocument" where
  "subsetOf converted m oper =
     converted\<lparr>paths := Some [(originalPath m, singleMethodItem (toLowerCase (matched_method m)) oper)]\<rparr>"

text \<open>\<^verbatim>\<open>const { tags, webhooks, components, ...dereferenced } = ...\<close>.\<close>

definition stripSections :: "OpenapiDocument \<Rightarrow> OpenapiDocument" where
  "stripSections d = d\<lparr>tags := None, webhooks := None, components := None\<rparr>"

text \<open>The inner \<^verbatim>\<open>try\<close>/\<^verbatim>\<open>catch\<close> of \<^verbatim>\<open>handleGetApiOperation\<close>.\<close>

definition operationDetail :: "Env \<Rightarrow> OpenapiDocument \<Rightarrow> ToolResult" where
  "operationDetail env sub =
     (case env_dereferenceSync env sub of
        Some dereferenced \<Rightarrow>
          \<lparr>content_text = env_dump env (stripSections dereferenced), isError = Some False\<rparr>
      | None \<Rightarrow> \<lparr>content_text = env_dump env sub, isError = Some False\<rparr>)"

definition handleGetApiOperation :: "Env \<Rightarrow> string \<Rightarrow> string \<Rightarrow> ToolResult" where
  "handleGetApiOperation env ident operationIdOrRoute =
     (if ident = [] \<or> operationIdOrRoute = [] then
        \<lparr>content_text = ''Error: Both '' @ [CHR 0x27] @ ''id'' @ [CHR 0x27] @ '' and '' @ [CHR 0x27]
           @ ''operationIdOrRoute'' @ [CHR 0x27] @ '' parameters are required'',
         isError = Some True\<rparr>
      else
        (case convertedOpenapi env ident of
           Inl msg \<Rightarrow> errorResult msg
         | Inr converted \<Rightarrow>
             (case matchOperation converted (''/'' @ operationIdOrRoute) of
                None \<Rightarrow> notFound converted
              | Some m \<Rightarrow>
                  (case operation m of
                     None \<Rightarrow> notFound converted
                   | Some oper \<Rightarrow> operationDetail env (subsetOf converted m oper)))))"

section \<open>The overview line and the declared identifiers in the words of the specification\<close>

text \<open>The operation identifier, empty when the operation has none.\<close>

definition idText :: "Operation \<Rightarrow> string" where
  "idText oper = (case operationId oper of None \<Rightarrow> [] | Some s \<Rightarrow> s)"

text \<open>The type printed for a parameter: its schema type, or its name when there is none.\<close>

definition typeOrName :: "Parameter \<Rightarrow> string" where
  "typeOrName p =
     (case schema p of
        None \<Rightarrow> name p
      | Some sc \<Rightarrow> (case schema_type sc of None \<Rightarrow> name p | Some t \<Rightarrow> if t = [] then name p else t))"

text \<open>One \<^verbatim>\<open>name=type\<close> pair per query parameter, in declaration order.\<close>

definition queryPairs :: "Operation \<Rightarrow> string list" where
  "queryPairs oper =
     (case parameters oper of
        None \<Rightarrow> []
      | Some ps \<Rightarrow> map (\<lambda>p. name p @ ''='' @ typeOrName p) (filter (\<lambda>p. param_in p = ''query'') ps))"

text \<open>The short form \<^verbatim>\<open>METHOD origin+path?name=type&...\<close>.\<close>

definition shortForm ::
  "(string \<Rightarrow> string option) \<Rightarrow> Server list \<Rightarrow> string \<times> string \<times> Operation \<Rightarrow> string" where
  "shortForm urlOrigin rootServers e =
     toUpperCase (fst (snd e)) @ '' '' @ getServerOrigin urlOrigin (Some (snd (snd e))) rootServers
     @ fst e
     @ (if queryPairs (snd (snd e)) = [] then [] else ''?'' @ join ''&'' (queryPairs (snd (snd e))))"

definition summaryText :: "Operation \<Rightarrow> string" where
  "summaryText oper = (case summary oper of None \<Rightarrow> [] | Some s \<Rightarrow> if s = [] then [] else '' - '' @ s)"

text \<open>The pointer to the detail of one operation: by identifier, or by route when it has none.\<close>

definition detailUrl :: "string \<Rightarrow> string \<times> string \<times> Operation \<Rightarrow> string" where
  "detailUrl hostname e =
     ''https://oapis.org/openapi/'' @ hostname
     @ (if idText (snd (snd e)) = [] then fst e else ''/'' @ idText (snd (snd e)))"

definition operationLine ::
  "(string \<Rightarrow> string option) \<Rightarrow> string \<Rightarrow> Server list \<Rightarrow> bool \<Rightarrow> string \<times> string \<times> Operation \<Rightarrow> string" where
  "operationLine urlOrigin hostname rootServers long e =
     ''- '' @ idText (snd (snd e))
     @ (if long then '' '' else '' '' @ shortForm urlOrigin rootServers e)
     @ summaryText (snd (snd e))
     @ '' ( Spec: '' @ detailUrl hostname e @ '' )''"

text \<open>The item built for one operation of the document.\<close>

definition itemOf ::
  "(string \<Rightarrow> string option) \<Rightarrow> string \<Rightarrow> Server list \<Rightarrow> string \<times> string \<times> Operation \<Rightarrow> Item" where
  "itemOf urlOrigin hostname rootServers e =
     makeItem urlOrigin hostname rootServers (fst e) (fst (snd e)) (snd (snd e))"

text \<open>Every operation identifier declared in the document, in path-then-method order.\<close>

definition declaredIds :: "(string \<times> PathItem) list \<Rightarrow> string list" where
  "declaredIds ps =
     concat (map (\<lambda>e. case operationId (snd (snd e)) of None \<Rightarrow> [] | Some i \<Rightarrow> [i]) (allOperations ps))"

section \<open>Example documents\<close>

definition mkOperation :: "string option \<Rightarrow> string option \<Rightarrow> Operation" where
  "mkOperation ident summ =
     \<lparr>operationId = ident, op_servers = None, summary = summ, op_description = None,
      parameters = None, requestBody = None, responses = JObj []\<rparr>"

definition mkDocument :: "Info \<Rightarrow> (string \<times> PathItem) list \<Rightarrow> OpenapiDocument" where
  "mkDocument i ps =
     \<lparr>tags = None, components = None, webhooks = None, openapi = Some ''3.0.0'', servers = None,
      info = Some i, paths = Some ps, swagger = None\<rparr>"

text \<open>A document in which \<^verbatim>\<open>/foo\<close> is a route and \<^verbatim>\<open>foo\<close> is also the identifier of an
  earlier operation, and in which the identifier \<^verbatim>\<open>dup\<close> is declared three times.\<close>

definition shadowPaths :: "(string \<times> PathItem) list" where
  "shadowPaths =
     [(''/bar'', emptyItem\<lparr>post := Some (mkOperation (Some ''foo'') (Some ''by id''))\<rparr>),
      (''/foo'', emptyItem\<lparr>get := Some (mkOperation (Some ''getFoo'') (Some ''by route''))\<rparr>),
      (''/a'', emptyItem\<lparr>put := Some (mkOperation (Some ''dup'') (Some ''first'')),
                          patch := Some (mkOperation (Some ''dup'') (Some ''second''))\<rparr>),
      (''/b'', emptyItem\<lparr>get := Some (mkOperation (Some ''dup'') (Some ''third''))\<rparr>)]"

definition shadowDoc :: OpenapiDocument where
  "shadowDoc = mkDocument \<lparr>title = ''Shadow'', version = ''1.0'', description = None\<rparr> shadowPaths"

text \<open>The scenario of the specification: one route \<^verbatim>\<open>/pets\<close> with \<^verbatim>\<open>listPets\<close>.\<close>

definition listPets :: Operation where
  "listPets =
     \<lparr>operationId = Some ''listPets'', op_servers = None, summary = Some ''List pets'',
      op_description = None,
      parameters = Some [\<lparr>name = ''limit'', param_in = ''query'', required = None,
                          schema = Some \<lparr>schema_type = Some ''integer'', schema_enum = None,
                                         schema_default = None\<rparr>,
                          param_description = None\<rparr>],
      requestBody = None, responses = JObj []\<rparr>"

definition petStorePaths :: "(string \<times> PathItem) list" where
  "petStorePaths = [(''/pets'', emptyItem\<lparr>get := Some listPets\<rparr>)]"

definition petStoreDoc :: OpenapiDocument where
  "petStoreDoc = mkDocument \<lparr>title = ''Pet Store'', version = ''1.0'', description = None\<rparr> petStorePaths"

text \<open>A URL parser that knows two URLs and throws on everything else.\<close>

definition exampleUrlOrigin :: "string \<Rightarrow> string option" where
  "exampleUrlOrigin s =
     (if s = ''https://api.example.com/v1'' then Some ''https://api.example.com''
      else if s = ''https://ops.example.com/x'' then Some ''https://ops.example.com''
      else None)"

definition apiServer :: Server where
  "apiServer = \<lparr>url = ''https://api.example.com/v1'', server_description = None\<rparr>"

definition opsServer :: Server where
  "opsServer = \<lparr>url = ''https://ops.example.com/x'', server_description = None\<rparr>"

definition rawServer :: Server where
  "rawServer = \<lparr>url = ''internal.example/base/path'', server_description = None\<rparr>"

definition withServers :: "Server list option \<Rightarrow> Operation" where
  "withServers s = (mkOperation None None)\<lparr>op_servers := s\<rparr>"

text \<open>An operation whose summary alone is longer than the compaction threshold.\<close>

definition verboseOperation :: Operation where
  "verboseOperation = mkOperation (Some ''bulk'') (Some (replicate 50000 CHR ''x''))"

definition verbosePaths :: "(string \<times> PathItem) list" where
  "verbosePaths = [(''/bulk'', emptyItem\<lparr>post := Some verboseOperation\<rparr>)]"

definition verboseDoc :: OpenapiDocument where
  "verboseDoc = mkDocument \<lparr>title = ''Verbose'', version = ''2.0'', description = Some ''Long summaries''\<rparr> verbosePaths"

text \<open>A document without operations and without a description.\<close>

definition emptyDoc :: OpenapiDocument where
  "emptyDoc = mkDocument \<lparr>title = ''Empty'', version = ''0.1'', description = None\<rparr> []"

section \<open>Example environments\<close>

text \<open>A stand-in for the YAML serialiser: the top-level keys that are present, then every
  route with the methods it has.\<close>

definition topLevelKeys :: "OpenapiDocument \<Rightarrow> string list" where
  "topLevelKeys d =
     (case tags d of None \<Rightarrow> [] | Some v \<Rightarrow> [''tags''])
     @ (case components d of None \<Rightarrow> [] | Some v \<Rightarrow> [''components''])
     @ (case webhooks d of None \<Rightarrow> [] | Some v \<Rightarrow> [''webhooks''])
     @ (case openapi d of None \<Rightarrow> [] | Some v \<Rightarrow> [''openapi''])
     @ (case servers d of None \<Rightarrow> [] | Some v \<Rightarrow> [''servers''])
     @ (case info d of None \<Rightarrow> [] | Some v \<Rightarrow> [''info''])
     @ (case paths d of None \<Rightarrow> [] | Some v \<Rightarrow> [''paths''])
     @ (case swagger d of None \<Rightarrow> [] | Some v \<Rightarrow> [''swagger''])"

definition exampleDump :: "OpenapiDocument \<Rightarrow> string" where
  "exampleDump d =
     join ''; ''
       (topLevelKeys d
        @ (case paths d of
             None \<Rightarrow> []
           | Some ps \<Rightarrow> map (\<lambda>e. fst e @ '' '' @ join '','' (map (\<lambda>x. fst (snd x)) (itemOperations e))) ps))"

text \<open>An environment in which the lookup of any identifier finds \<open>found\<close>, the converter
  answers \<open>converted\<close> and the dereferencing library behaves as \<open>deref\<close>.\<close>

definition exampleEnv ::
  "SearchResult option \<Rightarrow> OpenapiDocument option \<Rightarrow> (OpenapiDocument \<Rightarrow> OpenapiDocument option) \<Rightarrow> Env" where
  "exampleEnv found converted deref =
     \<lparr>env_urlOrigin = exampleUrlOrigin,
      env_searchOpenapi = (\<lambda>ident. Inr found),
      env_fetchJson = (\<lambda>u. converted),
      env_dereferenceSync = deref,
      env_dump = exampleDump,
      env_fetch = (\<lambda>u. Inl ''fetch failed''),
      env_encodeURIComponent = (\<lambda>s. s)\<rparr>"

definition serving :: "OpenapiDocument \<Rightarrow> SearchResult option" where
  "serving d = Some \<lparr>openapiUrl = ''https://example.com/openapi.json'', openapiJson = Some d\<rparr>"

text \<open>A document with a description longer than the size ceiling.\<close>

definition hugeDoc :: OpenapiDocument where
  "hugeDoc =
     mkDocument \<lparr>title = ''Huge'', version = ''9.9'', description = Some (replicate 250001 CHR ''d'')\<rparr> []"

text \<open>A Swagger 2.0 document, and what a converter may answer for it.\<close>

definition swaggerDoc :: OpenapiDocument where
  "swaggerDoc = emptyDoc\<lparr>openapi := None, swagger := Some (JStr ''2.0'')\<rparr>"

definition convertedThree :: OpenapiDocument where
  "convertedThree = swaggerDoc\<lparr>openapi := Some ''3.0.1'', swagger := None\<rparr>"

definition convertedTwo :: OpenapiDocument where
  "convertedTwo = swaggerDoc\<lparr>openapi := Some ''2.0''\<rparr>"

text \<open>A document with tags, webhooks and components, and an operation that refers to a
  component.\<close>

definition createPet :: Operation where
  "createPet = (mkOperation (Some ''createPet'') (Some ''Create a pet''))
     \<lparr>requestBody := Some (JObj [(''$ref'', JStr ''#/components/requestBodies/Pet'')])\<rparr>"

definition refPaths :: "(string \<times> PathItem) list" where
  "refPaths =
     [(''/pets'', emptyItem\<lparr>get := Some listPets, post := Some createPet\<rparr>),
      (''/owners'', emptyItem\<lparr>get := Some (mkOperation (Some ''listOwners'') None)\<rparr>)]"

definition refDoc :: OpenapiDocument where
  "refDoc = (mkDocument \<lparr>title = ''Refs'', version = ''1.0'', description = Some ''With components''\<rparr> refPaths)
     \<lparr>tags := Some (JArr [JObj [(''name'', JStr ''pets'')]]),
      components := Some (JObj [(''requestBodies'', JObj [(''Pet'', JObj [(''required'', JBool True)])])]),
      webhooks := Some (JObj [])\<rparr>"

text \<open>The match of \<^verbatim>\<open>createPet\<close> in \<open>refDoc\<close>.\<close>

definition createPetMatch :: MatchedOperation where
  "createPetMatch = \<lparr>operation = Some createPet, originalPath = ''/pets'', matched_method = ''POST''\<rparr>"

text \<open>A dereferencing library that inlines the one reference of \<open>refDoc\<close>.\<close>

definition inlinePet :: "Operation \<Rightarrow> Operation" where
  "inlinePet oper =
     (if requestBody oper = Some (JObj [(''$ref'', JStr ''#/components/requestBodies/Pet'')])
      then oper\<lparr>requestBody := Some (JObj [(''required'', JBool True)])\<rparr>
      else oper)"

definition inlineItem :: "PathItem \<Rightarrow> PathItem" where
  "inlineItem item =
     \<lparr>get = map_option inlinePet (get item), post = map_option inlinePet (post item),
      put = map_option inlinePet (put item), delete = map_option inlinePet (delete item),
      patch = map_option inlinePet (patch item)\<rparr>"

definition exampleDeref :: "OpenapiDocument \<Rightarrow> OpenapiDocument option" where
  "exampleDeref d = Some (d\<lparr>paths := map_option (map (\<lambda>e. (fst e, inlineItem (snd e)))) (paths d)\<rparr>)"

definition failingDeref :: "OpenapiDocument \<Rightarrow> OpenapiDocument option" where
  "failingDeref d = None"

text \<open>Documents with an empty operation identifier, with a doubled leading slash in a
  route, and with the root route.\<close>

definition blankIdPaths :: "(string \<times> PathItem) list" where
  "blankIdPaths =
     [(''/pets'', emptyItem\<lparr>get := Some listPets\<rparr>),
      (''/blank'', emptyItem\<lparr>post := Some (mkOperation (Some []) (Some ''no name''))\<rparr>)]"

definition blankIdDoc :: OpenapiDocument where
  "blankIdDoc = mkDocument \<lparr>title = ''Blank'', version = ''1.0'', description = None\<rparr> blankIdPaths"

definition slashPaths :: "(string \<times> PathItem) list" where
  "slashPaths =
     [(''/'', emptyItem\<lparr>get := Some (mkOperation (Some ''root'') None)\<rparr>),
      (''/pets'', emptyItem\<lparr>get := Some listPets\<rparr>),
      (''//pets'', emptyItem\<lparr>get := Some (mkOperation (Some ''shadowPets'') None)\<rparr>),
      (''/ids'', emptyItem\<lparr>put := Some (mkOperation (Some ''/pets/{id}'') None)\<rparr>),
      (''/pets/{id}'', emptyItem\<lparr>get := Some (mkOperation (Some ''getPet'') None)\<rparr>)]"

definition slashDoc :: OpenapiDocument where
  "slashDoc = mkDocument \<lparr>title = ''Slashes'', version = ''1.0'', description = None\<rparr> slashPaths"

section \<open>Properties of the operation matcher\<close>

lemma find_append_opt:
  "find P (xs @ ys) = (case find P xs of None \<Rightarrow> find P ys | Some x \<Rightarrow> Some x)"
  by (induction xs) auto

lemma find_itemOperations_aux:
  "find (hasId n) (concat (map (\<lambda>m. case methodOp item m of None \<Rightarrow> [] | Some oper \<Rightarrow> [(p, m, oper)]) ms))
   = (case find (idMatches item n) ms of
        None \<Rightarrow> None
      | Some m \<Rightarrow> (case methodOp item m of None \<Rightarrow> None | Some oper \<Rightarrow> Some (p, m, oper)))"
  by (induction ms) (auto simp: hasId_def idMatches_def split: option.splits)

lemma find_idMatches_Some:
  "find (idMatches item n) ms = Some m \<Longrightarrow> \<exists>oper. methodOp item m = Some oper"
  by (auto simp: find_Some_iff idMatches_def split: option.splits)

text \<open>The loop over the paths returns the first operation, in path-then-method order,
  whose identifier is the one looked for.\<close>

lemma matchById_find:
  "matchById ps n = map_option asMatch (find (hasId n) (allOperations ps))"
proof (induction ps)
  case Nil
  show ?case by (simp add: allOperations_def)
next
  case (Cons e ps)
  obtain p item where e: "e = (p, item)" by (cases e)
  have split_ops: "allOperations ((p, item) # ps) = itemOperations (p, item) @ allOperations ps"
    by (simp add: allOperations_def)
  show ?case
  proof (cases "find (idMatches item n) methods")
    case None
    then show ?thesis
      using Cons.IH
      by (simp add: e split_ops find_append_opt itemOperations_def find_itemOperations_aux allOperations_def)
  next
    case (Some m)
    then obtain oper where "methodOp item m = Some oper"
      using find_idMatches_Some by blast
    with Some show ?thesis
      by (simp add: e split_ops find_append_opt itemOperations_def find_itemOperations_aux asMatch_def)
  qed
qed

lemma toUpperCase_methods:
  "toUpperCase ''get'' = ''GET''" "toUpperCase ''post'' = ''POST''" "toUpperCase ''put'' = ''PUT''"
  "toUpperCase ''patch'' = ''PATCH''" "toUpperCase ''delete'' = ''DELETE''"
  by (simp_all add: toUpperCase_def upperChar_def)

text \<open>
  C1. For a document with paths, \<^verbatim>\<open>matchOperation\<close> first looks the token up as a literal
  route and takes that route's GET operation; only when there is none does it compare the token
  without its first character against the operationId of every operation, in
  path-then-method order, and return the first one that is equal. So a route with a GET
  operation wins over any operation whose operationId is the token, and of several
  operations with the same operationId the first declared is returned.
\<close>

theorem matchOperation_policy:
  assumes "paths doc = Some ps"
  shows "matchOperation doc pathname =
           (case directGet ps pathname of
              Some directMatch \<Rightarrow>
                Some \<lparr>operation = Some directMatch, originalPath = pathname, matched_method = ''GET''\<rparr>
            | None \<Rightarrow> map_option asMatch (find (hasId (drop 1 pathname)) (allOperations ps)))
         \<and> (map_of ps pathname = Some item \<and> get item = Some g \<longrightarrow>
              matchOperation doc pathname =
                Some \<lparr>operation = Some g, originalPath = pathname, matched_method = ''GET''\<rparr>)
         \<and> (directGet ps pathname = None \<and> allOperations ps = before @ e # after
              \<and> hasId (drop 1 pathname) e \<and> (\<forall>x \<in> set before. \<not> hasId (drop 1 pathname) x) \<longrightarrow>
              matchOperation doc pathname = Some (asMatch e))"
proof -
  have main: "matchOperation doc pathname =
           (case directGet ps pathname of
              Some directMatch \<Rightarrow>
                Some \<lparr>operation = Some directMatch, originalPath = pathname, matched_method = ''GET''\<rparr>
            | None \<Rightarrow> map_option asMatch (find (hasId (drop 1 pathname)) (allOperations ps)))"
    using assms by (simp add: matchOperation_def matchById_find split: option.splits)
  have direct: "matchOperation doc pathname =
                Some \<lparr>operation = Some g, originalPath = pathname, matched_method = ''GET''\<rparr>"
    if "map_of ps pathname = Some item \<and> get item = Some g"
    using that main by (simp add: directGet_def)
  have first: "matchOperation doc pathname = Some (asMatch e)"
    if h: "directGet ps pathname = None \<and> allOperations ps = before @ e # after
              \<and> hasId (drop 1 pathname) e \<and> (\<forall>x \<in> set before. \<not> hasId (drop 1 pathname) x)"
  proof -
    have "find (hasId (drop 1 pathname)) before = None"
      using h by (simp add: find_None_iff)
    then have "find (hasId (drop 1 pathname)) (allOperations ps) = Some e"
      using h by (simp add: find_append_opt)
    then show ?thesis using h main by simp
  qed
  from main direct first show ?thesis by blast
qed

theorem matchOperation_policy_witness:
  "paths shadowDoc = Some shadowPaths
   \<and> matchOperation shadowDoc ''/foo'' =
       Some \<lparr>operation = Some (mkOperation (Some ''getFoo'') (Some ''by route'')),
             originalPath = ''/foo'', matched_method = ''GET''\<rparr>
   \<and> matchOperation shadowDoc ''/dup'' =
       Some \<lparr>operation = Some (mkOperation (Some ''dup'') (Some ''first'')),
             originalPath = ''/a'', matched_method = ''PUT''\<rparr>"
proof -
  have p: "paths shadowDoc = Some shadowPaths"
    by (simp add: shadowDoc_def mkDocument_def)
  have d: "map_of shadowPaths ''/foo'' = Some (emptyItem\<lparr>get := Some (mkOperation (Some ''getFoo'') (Some ''by route''))\<rparr>)
           \<and> get (emptyItem\<lparr>get := Some (mkOperation (Some ''getFoo'') (Some ''by route''))\<rparr>)
               = Some (mkOperation (Some ''getFoo'') (Some ''by route''))"
    by (simp add: shadowPaths_def)
  have f: "directGet shadowPaths ''/dup'' = None
           \<and> allOperations shadowPaths =
               [(''/bar'', ''post'', mkOperation (Some ''foo'') (Some ''by id'')),
                (''/foo'', ''get'', mkOperation (Some ''getFoo'') (Some ''by route''))]
               @ (''/a'', ''put'', mkOperation (Some ''dup'') (Some ''first''))
               # [(''/a'', ''patch'', mkOperation (Some ''dup'') (Some ''second'')),
                  (''/b'', ''get'', mkOperation (Some ''dup'') (Some ''third''))]
           \<and> hasId (drop 1 ''/dup'') (''/a'', ''put'', mkOperation (Some ''dup'') (Some ''first''))
           \<and> (\<forall>x \<in> set [(''/bar'', ''post'', mkOperation (Some ''foo'') (Some ''by id'')),
                (''/foo'', ''get'', mkOperation (Some ''getFoo'') (Some ''by route''))].
                 \<not> hasId (drop 1 ''/dup'') x)"
    by (simp add: shadowPaths_def directGet_def allOperations_def itemOperations_def methods_def
        methodOp_def emptyItem_def hasId_def mkOperation_def)
  from matchOperation_policy [OF p, of "''/foo''" _ _ "[]"] d
  have r1: "matchOperation shadowDoc ''/foo'' =
       Some \<lparr>operation = Some (mkOperation (Some ''getFoo'') (Some ''by route'')),
             originalPath = ''/foo'', matched_method = ''GET''\<rparr>"
    by blast
  from matchOperation_policy [OF p, of "''/dup''"] f
  have r2: "matchOperation shadowDoc ''/dup'' = Some (asMatch (''/a'', ''put'', mkOperation (Some ''dup'') (Some ''first'')))"
    by blast
  from p r1 r2 show ?thesis by (simp add: asMatch_def toUpperCase_methods)
qed

section \<open>Properties of the overview generator\<close>

lemma splitStr_nonempty: "splitStr sep s \<noteq> []"
  by (induction s) (auto split: list.splits)

lemma hd_splitStr: "hd (splitStr sep s) = takeWhile (\<lambda>c. c \<noteq> sep) s"
  using splitStr_nonempty [of sep "tl s"]
  by (induction s) (auto simp: splitStr_nonempty split: list.splits)

text \<open>
  C8 (amended). The server list chosen is the operation's own list whenever the operation has
  a \<^verbatim>\<open>servers\<close> field, even an empty one, and the root list otherwise. The origin is that
  of the first server of the chosen list: what the URL parser returns, or, when parsing
  fails, the text before the first \<^verbatim>\<open>/\<close> of the raw string. An empty chosen list gives the
  empty origin.
\<close>

theorem getServerOrigin_chain:
  "((Option.bind oper op_servers = Some (s # rest)
      \<or> (Option.bind oper op_servers = None \<and> rootServers = s # rest)) \<longrightarrow>
      getServerOrigin urlOrigin oper rootServers =
        (case urlOrigin (url s) of
           Some origin \<Rightarrow> origin
         | None \<Rightarrow> hd (splitStr CHR ''/'' (url s))))
   \<and> ((Option.bind oper op_servers = Some []
      \<or> (Option.bind oper op_servers = None \<and> rootServers = [])) \<longrightarrow>
      getServerOrigin urlOrigin oper rootServers = [])
   \<and> hd (splitStr CHR ''/'' u) = takeWhile (\<lambda>c. c \<noteq> CHR ''/'') u"
  by (auto simp: getServerOrigin_def hd_splitStr)

theorem getServerOrigin_chain_witness:
  "getServerOrigin exampleUrlOrigin (Some (withServers (Some [opsServer, apiServer]))) [apiServer]
     = ''https://ops.example.com''
   \<and> getServerOrigin exampleUrlOrigin (Some (withServers None)) [apiServer, opsServer]
     = ''https://api.example.com''
   \<and> getServerOrigin exampleUrlOrigin None [rawServer] = ''internal.example''
   \<and> getServerOrigin exampleUrlOrigin (Some (withServers None)) [] = []
   \<and> getServerOrigin exampleUrlOrigin (Some (withServers (Some []))) [apiServer] = []"
proof -
  have a: "Option.bind (Some (withServers (Some [opsServer, apiServer]))) op_servers = Some (opsServer # [apiServer])"
    by (simp add: withServers_def)
  have b: "Option.bind (Some (withServers None)) op_servers = None \<and> [apiServer, opsServer] = apiServer # [opsServer]"
    by (simp add: withServers_def)
  have c: "Option.bind None op_servers = None \<and> [rawServer] = rawServer # []"
    by simp
  have d: "Option.bind (Some (withServers None)) op_servers = None \<and> ([] :: Server list) = []"
    by (simp add: withServers_def)
  have e: "Option.bind (Some (withServers (Some []))) op_servers = Some []"
    by (simp add: withServers_def)
  have o1: "exampleUrlOrigin (url opsServer) = Some ''https://ops.example.com''"
    by (simp add: exampleUrlOrigin_def opsServer_def)
  have o2: "exampleUrlOrigin (url apiServer) = Some ''https://api.example.com''"
    by (simp add: exampleUrlOrigin_def apiServer_def)
  have o3: "exampleUrlOrigin (url rawServer) = None"
    by (simp add: exampleUrlOrigin_def rawServer_def)
  have s3: "takeWhile (\<lambda>c. c \<noteq> CHR ''/'') (url rawServer) = ''internal.example''"
    by (simp add: rawServer_def)
  from getServerOrigin_chain [of "Some (withServers (Some [opsServer, apiServer]))" opsServer "[apiServer]"
      "[apiServer]" exampleUrlOrigin] a o1
  have r1: "getServerOrigin exampleUrlOrigin (Some (withServers (Some [opsServer, apiServer]))) [apiServer]
     = ''https://ops.example.com''" by simp
  from getServerOrigin_chain [of "Some (withServers None)" apiServer "[opsServer]"
      "[apiServer, opsServer]" exampleUrlOrigin] b o2
  have r2: "getServerOrigin exampleUrlOrigin (Some (withServers None)) [apiServer, opsServer]
     = ''https://api.example.com''" by simp
  from getServerOrigin_chain [of None rawServer "[]" "[rawServer]" exampleUrlOrigin "url rawServer"] c o3 s3
  have r3: "getServerOrigin exampleUrlOrigin None [rawServer] = ''internal.example''" by simp
  from getServerOrigin_chain [of "Some (withServers None)" _ _ "[]" exampleUrlOrigin] d
  have r4: "getServerOrigin exampleUrlOrigin (Some (withServers None)) [] = []" by simp
  from getServerOrigin_chain [of "Some (withServers (Some []))" _ _ "[apiServer]" exampleUrlOrigin] e
  have r5: "getServerOrigin exampleUrlOrigin (Some (withServers (Some []))) [apiServer] = []" by simp
  from r1 r2 r3 r4 r5 show ?thesis by simp
qed

text \<open>
  C8 as stated fails: an operation that declares an empty server list gets the empty
  origin although the document has a root server.
\<close>

theorem getServerOrigin_empty_list_counterexample:
  "op_servers (withServers (Some [])) = Some []
   \<and> exampleUrlOrigin (url apiServer) = Some ''https://api.example.com''
   \<and> getServerOrigin exampleUrlOrigin (Some (withServers (Some []))) [apiServer] = []
   \<and> getServerOrigin exampleUrlOrigin (Some (withServers (Some []))) [apiServer] \<noteq> ''https://api.example.com''"
  by (simp add: getServerOrigin_def withServers_def exampleUrlOrigin_def apiServer_def)

lemma foldl_methodStep:
  "foldl (methodStep urlOrigin hostname rootServers path pathItem) items ms =
     items @ concat (map (\<lambda>m. case methodOp pathItem m of
                                  None \<Rightarrow> []
                                | Some oper \<Rightarrow> [makeItem urlOrigin hostname rootServers path m oper]) ms)"
  by (induction ms arbitrary: items) (auto simp: methodStep_def split: option.splits)

lemma pathStep_itemOperations:
  "pathStep urlOrigin hostname rootServers items e =
     items @ map (itemOf urlOrigin hostname rootServers) (itemOperations e)"
proof -
  have "concat (map (\<lambda>m. case methodOp (snd e) m of
                                  None \<Rightarrow> []
                                | Some oper \<Rightarrow> [makeItem urlOrigin hostname rootServers (fst e) m oper]) ms)
        = map (itemOf urlOrigin hostname rootServers)
            (concat (map (\<lambda>m. case methodOp (snd e) m of None \<Rightarrow> [] | Some oper \<Rightarrow> [(fst e, m, oper)]) ms))" for ms
    by (induction ms) (auto simp: itemOf_def split: option.splits)
  then show ?thesis
    by (simp add: pathStep_def foldl_methodStep itemOperations_def)
qed

lemma foldl_pathStep:
  "foldl (pathStep urlOrigin hostname rootServers) items ps =
     items @ map (itemOf urlOrigin hostname rootServers) (allOperations ps)"
  by (induction ps arbitrary: items) (simp_all add: allOperations_def pathStep_itemOperations)

lemma collectItems_allOperations:
  "paths doc = Some ps \<Longrightarrow>
     collectItems urlOrigin hostname doc = map (itemOf urlOrigin hostname (rootServersOf doc)) (allOperations ps)"
  by (simp add: collectItems_def foldl_pathStep)

lemma join_eq_Nil: "\<forall>x \<in> set xs. x \<noteq> [] \<Longrightarrow> (join sep xs = []) = (xs = [])"
  by (induction sep xs rule: join.induct) auto

lemma paramPair_eq: "paramPair p = name p @ ''='' @ typeOrName p"
  by (simp add: paramPair_def typeOrName_def split: option.splits)

lemma queryString_eq:
  "queryString oper = (if queryPairs oper = [] then [] else ''?'' @ join ''&'' (queryPairs oper))"
proof (cases "parameters oper")
  case None
  then show ?thesis by (simp add: queryString_def queryPairs_def)
next
  case (Some ps)
  have ne: "\<forall>x \<in> set (map paramPair (filter (\<lambda>p. param_in p = ''query'') ps)). x \<noteq> []"
    by (auto simp: paramPair_eq)
  have pairs: "queryPairs oper = map paramPair (filter (\<lambda>p. param_in p = ''query'') ps)"
    using Some by (simp add: queryPairs_def paramPair_eq)
  show ?thesis
    using Some join_eq_Nil [OF ne, of "''&''"] pairs
    by (simp add: queryString_def Let_def)
qed

lemma itemLine_itemOf:
  "itemLine long (itemOf urlOrigin hostname rootServers e) = operationLine urlOrigin hostname rootServers long e"
  by (simp add: itemLine_def itemOf_def makeItem_def operationLine_def idText_def shortForm_def
      summaryText_def detailUrl_def queryString_eq Let_def split: option.splits)

text \<open>
  C9. The overview has one line per operation, in path-then-method order. Each line is the
  operation identifier (empty when absent), the short form \<^verbatim>\<open>METHOD origin+path?name=type&...\<close>
  with one pair per query parameter joined by \<^verbatim>\<open>&\<close>, the summary (when present) and the pointer
  URL; when the JSON text of the item list is longer than 50000 characters the short form is
  left out of every line and the other parts are kept.
\<close>

theorem overview_lines:
  assumes "paths doc = Some ps"
  shows "generateOverview urlOrigin hostname doc =
           join [CHR 0x0A]
             ([banner hostname (endpointCount urlOrigin hostname doc), []]
              @ headerLines urlOrigin doc
              @ map (operationLine urlOrigin hostname (rootServersOf doc)
                       (50000 < length (stringifyItems (collectItems urlOrigin hostname doc))))
                  (allOperations ps))"
proof -
  have lines: "map (itemLine long) (map (itemOf urlOrigin hostname (rootServersOf doc)) ops)
               = map (operationLine urlOrigin hostname (rootServersOf doc) long) ops" for long ops
    by (induction ops) (simp_all add: itemLine_itemOf)
  have "outputLines urlOrigin hostname doc =
          headerLines urlOrigin doc
          @ map (operationLine urlOrigin hostname (rootServersOf doc)
                   (50000 < length (stringifyItems (collectItems urlOrigin hostname doc))))
              (allOperations ps)"
    unfolding outputLines_def Let_def
    using lines collectItems_allOperations [OF assms, of urlOrigin hostname] by simp
  then show ?thesis
    by (simp add: generateOverview_def)
qed


lemma length_concat_jsonEscape: "length s \<le> length (concat (map jsonEscape s))"
proof (induction s)
  case Nil
  show ?case by simp
next
  case (Cons c s)
  have "1 \<le> length (jsonEscape c)"
    by (simp add: jsonEscape_def)
  with Cons show ?case by simp
qed

lemma length_quoteJSONString: "length s \<le> length (quoteJSONString s)"
  using length_concat_jsonEscape [of s] by (simp add: quoteJSONString_def)

lemma length_stringifyItems_single: "length (summaryPart item) \<le> length (stringifyItems [item])"
  using length_quoteJSONString [of "summaryPart item"]
  by (simp add: stringifyItems_def stringifyItem_def)

lemma allOperations_petStore: "allOperations petStorePaths = [(''/pets'', ''get'', listPets)]"
  by (simp add: allOperations_def itemOperations_def petStorePaths_def methods_def methodOp_def emptyItem_def)

lemma allOperations_verbose: "allOperations verbosePaths = [(''/bulk'', ''post'', verboseOperation)]"
  by (simp add: allOperations_def itemOperations_def verbosePaths_def methods_def methodOp_def emptyItem_def)

lemma petStore_short:
  "\<not> 50000 < length (stringifyItems (collectItems exampleUrlOrigin ''petstore'' petStoreDoc))"
proof -
  have p: "paths petStoreDoc = Some petStorePaths"
    by (simp add: petStoreDoc_def mkDocument_def)
  show ?thesis
    unfolding collectItems_allOperations [OF p] allOperations_petStore
    by (simp add: itemOf_def makeItem_def listPets_def stringifyItems_def stringifyItem_def
        quoteJSONString_def jsonEscape_def queryString_def paramPair_def getServerOrigin_def
        rootServersOf_def petStoreDoc_def mkDocument_def toUpperCase_methods Let_def)
qed

lemma verbose_long:
  "50000 < length (stringifyItems (collectItems exampleUrlOrigin ''verbose'' verboseDoc))"
proof -
  have p: "paths verboseDoc = Some verbosePaths"
    by (simp add: verboseDoc_def mkDocument_def)
  have "length (summaryPart (itemOf exampleUrlOrigin ''verbose'' (rootServersOf verboseDoc)
                  (''/bulk'', ''post'', verboseOperation))) = 50003"
    by (simp add: itemOf_def makeItem_def verboseOperation_def mkOperation_def Let_def)
  then show ?thesis
    unfolding collectItems_allOperations [OF p] allOperations_verbose
    using length_stringifyItems_single [of "itemOf exampleUrlOrigin ''verbose'' (rootServersOf verboseDoc)
                  (''/bulk'', ''post'', verboseOperation)"]
    by simp
qed

theorem overview_lines_witness:
  "paths petStoreDoc = Some petStorePaths
   \<and> generateOverview exampleUrlOrigin ''petstore'' petStoreDoc =
       join [CHR 0x0A]
         [banner ''petstore'' (endpointCount exampleUrlOrigin ''petstore'' petStoreDoc), [],
          ''Pet Store v1.0 - '', [],
          ''- listPets GET /pets?limit=integer - List pets ( Spec: https://oapis.org/openapi/petstore/listPets )'']
   \<and> paths verboseDoc = Some verbosePaths
   \<and> generateOverview exampleUrlOrigin ''verbose'' verboseDoc =
       join [CHR 0x0A]
         [banner ''verbose'' (endpointCount exampleUrlOrigin ''verbose'' verboseDoc), [],
          ''Verbose v2.0 - '', ''Long summaries'', [],
          ''- bulk  - '' @ replicate 50000 CHR ''x'' @ '' ( Spec: https://oapis.org/openapi/verbose/bulk )'']"
proof -
  have p: "paths petStoreDoc = Some petStorePaths"
    by (simp add: petStoreDoc_def mkDocument_def)
  have v: "paths verboseDoc = Some verbosePaths"
    by (simp add: verboseDoc_def mkDocument_def)
  have hp: "headerLines exampleUrlOrigin petStoreDoc = [''Pet Store v1.0 - '', []]"
    by (simp add: headerLines_def petStoreDoc_def mkDocument_def getServerOrigin_def rootServersOf_def)
  have hv: "headerLines exampleUrlOrigin verboseDoc = [''Verbose v2.0 - '', ''Long summaries'', []]"
    by (simp add: headerLines_def verboseDoc_def mkDocument_def getServerOrigin_def rootServersOf_def)
  have lp: "operationLine exampleUrlOrigin ''petstore'' (rootServersOf petStoreDoc) False (''/pets'', ''get'', listPets)
            = ''- listPets GET /pets?limit=integer - List pets ( Spec: https://oapis.org/openapi/petstore/listPets )''"
    by (simp add: operationLine_def idText_def shortForm_def summaryText_def detailUrl_def queryPairs_def
        typeOrName_def listPets_def getServerOrigin_def rootServersOf_def petStoreDoc_def mkDocument_def
        toUpperCase_methods)
  have lv: "operationLine exampleUrlOrigin ''verbose'' (rootServersOf verboseDoc) True (''/bulk'', ''post'', verboseOperation)
            = ''- bulk  - '' @ replicate 50000 CHR ''x'' @ '' ( Spec: https://oapis.org/openapi/verbose/bulk )''"
    by (simp add: operationLine_def idText_def summaryText_def detailUrl_def verboseOperation_def mkOperation_def)
  from overview_lines [OF p, of exampleUrlOrigin "''petstore''"] petStore_short hp lp
  have r1: "generateOverview exampleUrlOrigin ''petstore'' petStoreDoc =
       join [CHR 0x0A]
         [banner ''petstore'' (endpointCount exampleUrlOrigin ''petstore'' petStoreDoc), [],
          ''Pet Store v1.0 - '', [],
          ''- listPets GET /pets?limit=integer - List pets ( Spec: https://oapis.org/openapi/petstore/listPets )'']"
    by (simp add: allOperations_petStore)
  from overview_lines [OF v, of exampleUrlOrigin "''verbose''"] verbose_long hv lv
  have r2: "generateOverview exampleUrlOrigin ''verbose'' verboseDoc =
       join [CHR 0x0A]
         [banner ''verbose'' (endpointCount exampleUrlOrigin ''verbose'' verboseDoc), [],
          ''Verbose v2.0 - '', ''Long summaries'', [],
          ''- bulk  - '' @ replicate 50000 CHR ''x'' @ '' ( Spec: https://oapis.org/openapi/verbose/bulk )'']"
    by (simp add: allOperations_verbose)
  from p v r1 r2 show ?thesis by simp
qed

lemma length_headerLines:
  "length (headerLines urlOrigin doc) =
     (case info doc of None \<Rightarrow> 0 | Some i \<Rightarrow> if truthyStr (description i) then 3 else 2)"
  by (simp add: headerLines_def truthyStr_def split: option.splits)

lemma endpointCount_eq:
  "paths doc = Some ps \<Longrightarrow>
     endpointCount urlOrigin hostname doc =
       int (length (allOperations ps)) + int (length (headerLines urlOrigin doc)) - 3"
  by (simp add: endpointCount_def outputLines_def Let_def collectItems_allOperations)

lemma paths_petStoreDoc: "paths petStoreDoc = Some petStorePaths"
  by (simp add: petStoreDoc_def mkDocument_def)

lemma paths_emptyDoc: "paths emptyDoc = Some []"
  by (simp add: emptyDoc_def mkDocument_def)

lemma headerLines_petStore: "headerLines exampleUrlOrigin petStoreDoc = [''Pet Store v1.0 - '', []]"
  by (simp add: headerLines_def petStoreDoc_def mkDocument_def getServerOrigin_def rootServersOf_def)

lemma headerLines_empty: "headerLines exampleUrlOrigin emptyDoc = [''Empty v0.1 - '', []]"
  by (simp add: headerLines_def emptyDoc_def mkDocument_def getServerOrigin_def rootServersOf_def)

lemma endpointCount_petStore: "endpointCount exampleUrlOrigin ''petstore'' petStoreDoc = 0"
  by (simp add: endpointCount_eq [OF paths_petStoreDoc] headerLines_petStore allOperations_petStore)

lemma endpointCount_empty: "endpointCount exampleUrlOrigin ''empty'' emptyDoc = - 1"
  by (simp add: endpointCount_eq [OF paths_emptyDoc] headerLines_empty allOperations_def)

lemma outputLines_petStore:
  "outputLines exampleUrlOrigin ''petstore'' petStoreDoc =
     [''Pet Store v1.0 - '', [],
      ''- listPets GET /pets?limit=integer - List pets ( Spec: https://oapis.org/openapi/petstore/listPets )'']"
proof -
  have items: "collectItems exampleUrlOrigin ''petstore'' petStoreDoc =
              [itemOf exampleUrlOrigin ''petstore'' (rootServersOf petStoreDoc) (''/pets'', ''get'', listPets)]"
    by (simp add: collectItems_allOperations [OF paths_petStoreDoc] allOperations_petStore)
  have line: "itemLine False (itemOf exampleUrlOrigin ''petstore'' (rootServersOf petStoreDoc) (''/pets'', ''get'', listPets))
            = ''- listPets GET /pets?limit=integer - List pets ( Spec: https://oapis.org/openapi/petstore/listPets )''"
    by (simp add: itemLine_def itemOf_def makeItem_def Let_def listPets_def queryString_def paramPair_def
        getServerOrigin_def rootServersOf_def petStoreDoc_def mkDocument_def toUpperCase_methods)
  show ?thesis
    using petStore_short by (simp add: outputLines_def Let_def headerLines_petStore items line)
qed

lemma outputLines_empty: "outputLines exampleUrlOrigin ''empty'' emptyDoc = [''Empty v0.1 - '', []]"
  by (simp add: outputLines_def Let_def headerLines_empty collectItems_allOperations [OF paths_emptyDoc]
      allOperations_def)

lemma generateOverview_petStore:
  "generateOverview exampleUrlOrigin ''petstore'' petStoreDoc =
       ''Below is an overview of the petstore openapi in simple language. This API contains 0 endpoints. For more detailed information of an endpoint, visit https://oapis.org/summary/petstore/[idOrRoute]''
       @ [CHR 0x0A, CHR 0x0A] @ ''Pet Store v1.0 - '' @ [CHR 0x0A, CHR 0x0A]
       @ ''- listPets GET /pets?limit=integer - List pets ( Spec: https://oapis.org/openapi/petstore/listPets )''"
  by (simp add: generateOverview_def endpointCount_petStore outputLines_petStore banner_def
      numberToString_def natToString.simps digitChar_def)

lemma generateOverview_empty:
  "generateOverview exampleUrlOrigin ''empty'' emptyDoc =
       ''Below is an overview of the empty openapi in simple language. This API contains -1 endpoints. For more detailed information of an endpoint, visit https://oapis.org/summary/empty/[idOrRoute]''
       @ [CHR 0x0A, CHR 0x0A] @ ''Empty v0.1 - '' @ [CHR 0x0A]"
  by (simp add: generateOverview_def endpointCount_empty outputLines_empty banner_def
      numberToString_def natToString.simps digitChar_def)

text \<open>
  C5. The banner count is \<^verbatim>\<open>output.length - 3\<close>, which is the number of operations only
  when the header has three lines, that is, when the document has a description. For the
  Pet Store scenario (one operation, no description) the banner reports 0 endpoints, and for
  a document without operations and without a description it reports -1.
\<close>

theorem endpointCount_off_by_one:
  "length (allOperations petStorePaths) = 1
   \<and> endpointCount exampleUrlOrigin ''petstore'' petStoreDoc = 0
   \<and> generateOverview exampleUrlOrigin ''petstore'' petStoreDoc =
       ''Below is an overview of the petstore openapi in simple language. This API contains 0 endpoints. For more detailed information of an endpoint, visit https://oapis.org/summary/petstore/[idOrRoute]''
       @ [CHR 0x0A, CHR 0x0A] @ ''Pet Store v1.0 - '' @ [CHR 0x0A, CHR 0x0A]
       @ ''- listPets GET /pets?limit=integer - List pets ( Spec: https://oapis.org/openapi/petstore/listPets )''
   \<and> length (allOperations []) = 0
   \<and> endpointCount exampleUrlOrigin ''empty'' emptyDoc = - 1
   \<and> generateOverview exampleUrlOrigin ''empty'' emptyDoc =
       ''Below is an overview of the empty openapi in simple language. This API contains -1 endpoints. For more detailed information of an endpoint, visit https://oapis.org/summary/empty/[idOrRoute]''
       @ [CHR 0x0A, CHR 0x0A] @ ''Empty v0.1 - '' @ [CHR 0x0A]"
proof -
  have none: "length (allOperations []) = 0"
    by (simp add: allOperations_def)
  from none endpointCount_petStore endpointCount_empty generateOverview_petStore generateOverview_empty
  show ?thesis
    by (simp add: allOperations_petStore)
qed

section \<open>Properties of the tool handlers\<close>

lemma length_join_ge: "x \<in> set xs \<Longrightarrow> length x \<le> length (join sep xs)"
  by (induction sep xs rule: join.induct) auto

lemma length_generateOverview_description:
  assumes "info doc = Some i" and "description i = Some d" and "d \<noteq> []"
  shows "length d \<le> length (generateOverview urlOrigin hostname doc)"
proof -
  have "d \<in> set (headerLines urlOrigin doc)"
    using assms by (simp add: headerLines_def)
  then have "d \<in> set ([banner hostname (endpointCount urlOrigin hostname doc), []]
                        @ outputLines urlOrigin hostname doc)"
    by (simp add: outputLines_def Let_def)
  then show ?thesis
    unfolding generateOverview_def by (rule length_join_ge)
qed

text \<open>
  C3. When the overview is longer than 250000 characters the call answers the too-large error
  with \<^verbatim>\<open>isError: true\<close>; otherwise the overview text is returned as it is. This holds
  for the handler that generates the overview and for the stdio handler that fetches it.
\<close>

theorem too_large_rejected:
  "(ident \<noteq> [] \<and> convertedOpenapi env ident = Inr converted
      \<and> overview = generateOverview (env_urlOrigin env) ident converted \<longrightarrow>
      (250000 < length overview \<longrightarrow>
         handleGetApiOverview env ident =
           \<lparr>content_text = ''Error: '' @ tooLargeMessage, isError = Some True\<rparr>)
      \<and> (length overview \<le> 250000 \<longrightarrow>
         handleGetApiOverview env ident = \<lparr>content_text = overview, isError = Some False\<rparr>))
   \<and> (env_fetch env (''https://oapis.org/overview/'' @ env_encodeURIComponent env ident) = Inr response
      \<and> ok response \<longrightarrow>
      (250000 < length (body response) \<longrightarrow>
         getApiOverview env ident =
           \<lparr>content_text = ''Error: '' @ tooLargeMessage, isError = Some True\<rparr>)
      \<and> (length (body response) \<le> 250000 \<longrightarrow>
         getApiOverview env ident = \<lparr>content_text = body response, isError = None\<rparr>))"
  by (simp add: handleGetApiOverview_def getApiOverview_def errorResult_def Let_def)

lemma not_isSwagger_mkDocument: "\<not> isSwagger (mkDocument i ps)"
  by (simp add: isSwagger_def mkDocument_def truthyStr_def startsWith_def)

lemma convertedOpenapi_serving:
  "\<not> isSwagger d \<Longrightarrow> openapi d = Some v \<Longrightarrow> v \<noteq> [] \<Longrightarrow>
     convertedOpenapi (exampleEnv (serving d) c deref) ident = Inr d"
  by (simp add: convertedOpenapi_def exampleEnv_def serving_def truthyStr_def)

lemma convertedOpenapi_mkDocument:
  "convertedOpenapi (exampleEnv (serving (mkDocument i ps)) c deref) ident = Inr (mkDocument i ps)"
  by (rule convertedOpenapi_serving [OF not_isSwagger_mkDocument, of _ _ "''3.0.0''"])
     (simp_all add: mkDocument_def)

theorem too_large_rejected_witness:
  "handleGetApiOverview (exampleEnv (serving emptyDoc) None exampleDeref) ''empty'' =
     \<lparr>content_text =
        ''Below is an overview of the empty openapi in simple language. This API contains -1 endpoints. For more detailed information of an endpoint, visit https://oapis.org/summary/empty/[idOrRoute]''
        @ [CHR 0x0A, CHR 0x0A] @ ''Empty v0.1 - '' @ [CHR 0x0A],
      isError = Some False\<rparr>
   \<and> handleGetApiOverview (exampleEnv (serving hugeDoc) None exampleDeref) ''huge'' =
     \<lparr>content_text = ''Error: The OpenAPI specification is too large to process with this MCP. Please try a different OpenAPI.'',
      isError = Some True\<rparr>
   \<and> getApiOverview ((exampleEnv None None exampleDeref)
        \<lparr>env_fetch := (\<lambda>u. Inr \<lparr>ok = True, body = replicate 250001 CHR ''z''\<rparr>)\<rparr>) ''huge'' =
     \<lparr>content_text = ''Error: The OpenAPI specification is too large to process with this MCP. Please try a different OpenAPI.'',
      isError = Some True\<rparr>
   \<and> getApiOverview ((exampleEnv None None exampleDeref)
        \<lparr>env_fetch := (\<lambda>u. Inr \<lparr>ok = True, body = replicate 250000 CHR ''z''\<rparr>)\<rparr>) ''large'' =
     \<lparr>content_text = replicate 250000 CHR ''z'', isError = None\<rparr>"
proof -
  let ?e1 = "exampleEnv (serving emptyDoc) None exampleDeref"
  let ?e2 = "exampleEnv (serving hugeDoc) None exampleDeref"
  let ?e3 = "(exampleEnv None None exampleDeref)
        \<lparr>env_fetch := (\<lambda>u. Inr \<lparr>ok = True, body = replicate 250001 CHR ''z''\<rparr>)\<rparr>"
  let ?e4 = "(exampleEnv None None exampleDeref)
        \<lparr>env_fetch := (\<lambda>u. Inr \<lparr>ok = True, body = replicate 250000 CHR ''z''\<rparr>)\<rparr>"
  have c1: "convertedOpenapi ?e1 ''empty'' = Inr emptyDoc"
    unfolding emptyDoc_def by (rule convertedOpenapi_mkDocument)
  have c2: "convertedOpenapi ?e2 ''huge'' = Inr hugeDoc"
    unfolding hugeDoc_def by (rule convertedOpenapi_mkDocument)
  have u1: "env_urlOrigin ?e1 = exampleUrlOrigin" and u2: "env_urlOrigin ?e2 = exampleUrlOrigin"
    by (simp_all add: exampleEnv_def)
  have small: "length (generateOverview exampleUrlOrigin ''empty'' emptyDoc) \<le> 250000"
    by (simp add: generateOverview_empty)
  have "length (replicate 250001 CHR ''d'') \<le> length (generateOverview exampleUrlOrigin ''huge'' hugeDoc)"
    by (rule length_generateOverview_description [of _ "\<lparr>title = ''Huge'', version = ''9.9'', description = Some (replicate 250001 CHR ''d'')\<rparr>"])
       (simp_all add: hugeDoc_def mkDocument_def)
  then have big: "250000 < length (generateOverview exampleUrlOrigin ''huge'' hugeDoc)"
    by simp
  have f3: "env_fetch ?e3 (''https://oapis.org/overview/'' @ env_encodeURIComponent ?e3 ''huge'')
              = Inr \<lparr>ok = True, body = replicate 250001 CHR ''z''\<rparr>"
    by simp
  have f4: "env_fetch ?e4 (''https://oapis.org/overview/'' @ env_encodeURIComponent ?e4 ''large'')
              = Inr \<lparr>ok = True, body = replicate 250000 CHR ''z''\<rparr>"
    by simp
  from too_large_rejected [of "''empty''" ?e1 emptyDoc "generateOverview exampleUrlOrigin ''empty'' emptyDoc"]
    c1 u1 small
  have r1: "handleGetApiOverview ?e1 ''empty'' =
              \<lparr>content_text = generateOverview exampleUrlOrigin ''empty'' emptyDoc, isError = Some False\<rparr>"
    by simp
  from too_large_rejected [of "''huge''" ?e2 hugeDoc "generateOverview exampleUrlOrigin ''huge'' hugeDoc"]
    c2 u2 big
  have r2: "handleGetApiOverview ?e2 ''huge'' = \<lparr>content_text = ''Error: '' @ tooLargeMessage, isError = Some True\<rparr>"
    by simp
  from too_large_rejected [of "''huge''" ?e3 _ _ "\<lparr>ok = True, body = replicate 250001 CHR ''z''\<rparr>"] f3
  have r3: "getApiOverview ?e3 ''huge'' = \<lparr>content_text = ''Error: '' @ tooLargeMessage, isError = Some True\<rparr>"
    by simp
  from too_large_rejected [of "''large''" ?e4 _ _ "\<lparr>ok = True, body = replicate 250000 CHR ''z''\<rparr>"] f4
  have r4: "getApiOverview ?e4 ''large'' = \<lparr>content_text = replicate 250000 CHR ''z'', isError = None\<rparr>"
    by simp
  from r1 r2 r3 r4 show ?thesis
    by (simp add: generateOverview_empty tooLargeMessage_def)
qed

lemma handleGetApiOperation_reached:
  "ident \<noteq> [] \<Longrightarrow> tok \<noteq> [] \<Longrightarrow> convertedOpenapi env ident = Inr converted \<Longrightarrow>
     handleGetApiOperation env ident tok =
       (case matchOperation converted (''/'' @ tok) of
          None \<Rightarrow> notFound converted
        | Some m \<Rightarrow>
            (case operation m of
               None \<Rightarrow> notFound converted
             | Some oper \<Rightarrow> operationDetail env (subsetOf converted m oper)))"
  by (simp add: handleGetApiOperation_def)

lemma allOperations_member:
  "e \<in> set (allOperations ps) \<Longrightarrow>
     \<exists>item. (fst e, item) \<in> set ps \<and> fst (snd e) \<in> set methods
            \<and> methodOp item (fst (snd e)) = Some (snd (snd e))"
  by (auto simp: allOperations_def itemOperations_def split: option.splits)

text \<open>Whatever \<^verbatim>\<open>matchOperation\<close> returns is an operation of the document.\<close>

lemma matchOperation_sound:
  assumes "matchOperation doc pathname = Some m"
  shows "\<exists>ps item k oper. paths doc = Some ps \<and> (originalPath m, item) \<in> set ps \<and> k \<in> set methods
           \<and> methodOp item k = Some oper \<and> operation m = Some oper
           \<and> matched_method m = toUpperCase k"
proof -
  from assms obtain ps where ps: "paths doc = Some ps"
    by (auto simp: matchOperation_def split: option.splits)
  show ?thesis
  proof (cases "directGet ps pathname")
    case (Some g)
    then obtain item where item: "map_of ps pathname = Some item" "get item = Some g"
      by (auto simp: directGet_def Option.bind_eq_Some_conv)
    from Some ps assms have m: "m = \<lparr>operation = Some g, originalPath = pathname, matched_method = ''GET''\<rparr>"
      by (simp add: matchOperation_def)
    have "(pathname, item) \<in> set ps"
      using item(1) by (rule map_of_SomeD)
    moreover have "''get'' \<in> set methods" by (simp add: methods_def)
    moreover have "methodOp item ''get'' = Some g" using item(2) by (simp add: methodOp_def)
    ultimately show ?thesis
      using ps m
      by (intro exI [of _ ps] exI [of _ item] exI [of _ "''get''"] exI [of _ g])
         (simp add: toUpperCase_methods)
  next
    case None
    with ps assms have "map_option asMatch (find (hasId (drop 1 pathname)) (allOperations ps)) = Some m"
      by (simp add: matchOperation_def matchById_find)
    then obtain e where e: "find (hasId (drop 1 pathname)) (allOperations ps) = Some e" "m = asMatch e"
      by auto
    from e(1) have "e \<in> set (allOperations ps)"
      by (auto simp: find_Some_iff)
    from allOperations_member [OF this] obtain item where
      "(fst e, item) \<in> set ps" "fst (snd e) \<in> set methods" "methodOp item (fst (snd e)) = Some (snd (snd e))"
      by blast
    then show ?thesis
      using ps e(2) by (auto simp: asMatch_def)
  qed
qed

lemma toLowerCase_toUpperCase_methods: "k \<in> set methods \<Longrightarrow> toLowerCase (toUpperCase k) = k"
  by (auto simp: methods_def toLowerCase_def toUpperCase_def lowerChar_def upperChar_def)

lemma allOperations_single:
  "k \<in> set methods \<Longrightarrow> allOperations [(p, singleMethodItem k oper)] = [(p, k, oper)]"
  by (auto simp: methods_def allOperations_def itemOperations_def singleMethodItem_def methodOp_def emptyItem_def)

text \<open>
  C7. When an operation is matched and the dereferencing library throws, the handler answers
  with \<^verbatim>\<open>isError: false\<close> and the serialisation of the subset that was not dereferenced:
  the document with \<^verbatim>\<open>paths\<close> reduced to the matched route and method.
\<close>

theorem dereference_failure_fallback:
  assumes "ident \<noteq> []" and "tok \<noteq> []"
    and "convertedOpenapi env ident = Inr converted"
    and "matchOperation converted (''/'' @ tok) = Some m"
    and "operation m = Some oper"
    and "env_dereferenceSync env (subsetOf converted m oper) = None"
  shows "handleGetApiOperation env ident tok =
           \<lparr>content_text = env_dump env (subsetOf converted m oper), isError = Some False\<rparr>
         \<and> (\<exists>k. k \<in> set methods \<and> matched_method m = toUpperCase k
              \<and> paths (subsetOf converted m oper) = Some [(originalPath m, singleMethodItem k oper)]
              \<and> allOperations [(originalPath m, singleMethodItem k oper)] = [(originalPath m, k, oper)])"
proof -
  have res: "handleGetApiOperation env ident tok =
           \<lparr>content_text = env_dump env (subsetOf converted m oper), isError = Some False\<rparr>"
    using assms by (simp add: handleGetApiOperation_reached operationDetail_def)
  from matchOperation_sound [OF assms(4)] obtain k where
    k: "k \<in> set methods" "matched_method m = toUpperCase k"
    by blast
  have "paths (subsetOf converted m oper) = Some [(originalPath m, singleMethodItem k oper)]"
    using k by (simp add: subsetOf_def toLowerCase_toUpperCase_methods)
  with res k allOperations_single [OF k(1)] show ?thesis
    by blast
qed


lemma not_isSwagger_refDoc: "\<not> isSwagger refDoc"
  by (simp add: isSwagger_def refDoc_def mkDocument_def truthyStr_def startsWith_def)

lemma convertedOpenapi_refDoc:
  "convertedOpenapi (exampleEnv (serving refDoc) c deref) ident = Inr refDoc"
  by (rule convertedOpenapi_serving [OF not_isSwagger_refDoc, of "''3.0.0''"])
     (simp_all add: refDoc_def mkDocument_def)

lemma paths_refDoc: "paths refDoc = Some refPaths"
  by (simp add: refDoc_def mkDocument_def)

lemma matchOperation_createPet: "matchOperation refDoc ''/createPet'' = Some createPetMatch"
  by (simp add: matchOperation_def paths_refDoc directGet_def refPaths_def idMatches_def methods_def
      methodOp_def emptyItem_def listPets_def createPet_def mkOperation_def createPetMatch_def
      toUpperCase_methods)

lemma subset_createPet:
  "subsetOf refDoc createPetMatch createPet =
     refDoc\<lparr>paths := Some [(''/pets'', emptyItem\<lparr>post := Some createPet\<rparr>)]\<rparr>"
  by (simp add: subsetOf_def createPetMatch_def singleMethodItem_def toLowerCase_def lowerChar_def)

lemma dump_subset_createPet:
  "exampleDump (subsetOf refDoc createPetMatch createPet) =
     ''tags; components; webhooks; openapi; info; paths; /pets post''"
  unfolding subset_createPet
  by (simp add: exampleDump_def topLevelKeys_def refDoc_def mkDocument_def
      itemOperations_def methods_def methodOp_def emptyItem_def)

theorem dereference_failure_fallback_witness:
  "handleGetApiOperation (exampleEnv (serving refDoc) None failingDeref) ''refs'' ''createPet'' =
     \<lparr>content_text = ''tags; components; webhooks; openapi; info; paths; /pets post'',
      isError = Some False\<rparr>
   \<and> paths (subsetOf refDoc createPetMatch createPet) =
       Some [(''/pets'', singleMethodItem ''post'' createPet)]"
proof -
  let ?env = "exampleEnv (serving refDoc) None failingDeref"
  have a: "''refs'' \<noteq> []" and b: "''createPet'' \<noteq> []"
    by simp_all
  have m: "matchOperation refDoc (''/'' @ ''createPet'') = Some createPetMatch"
    using matchOperation_createPet by simp
  have o: "operation createPetMatch = Some createPet"
    by (simp add: createPetMatch_def)
  have d: "env_dereferenceSync ?env (subsetOf refDoc createPetMatch createPet) = None"
    by (simp add: exampleEnv_def failingDeref_def)
  have dump: "env_dump ?env = exampleDump"
    by (simp add: exampleEnv_def)
  from dereference_failure_fallback [OF a b convertedOpenapi_refDoc m o d, THEN conjunct1]
  have r: "handleGetApiOperation ?env ''refs'' ''createPet'' =
             \<lparr>content_text = env_dump ?env (subsetOf refDoc createPetMatch createPet), isError = Some False\<rparr>" .
  have s: "paths (subsetOf refDoc createPetMatch createPet) =
             Some [(''/pets'', singleMethodItem ''post'' createPet)]"
    by (simp add: subsetOf_def createPetMatch_def toLowerCase_def lowerChar_def)
  from r s show ?thesis
    by (simp add: dump dump_subset_createPet)
qed

text \<open>
  C6 (amended). When an operation is matched and dereferencing succeeds, the text is the
  serialisation of what the dereferencing library returned with \<^verbatim>\<open>tags\<close>, \<^verbatim>\<open>webhooks\<close> and
  \<^verbatim>\<open>components\<close> removed and every other top-level field untouched. When dereferencing fails,
  the subset is serialised as it is, with the three sections of the document still in it.
\<close>

theorem detail_sections:
  assumes "ident \<noteq> []" and "tok \<noteq> []"
    and "convertedOpenapi env ident = Inr converted"
    and "matchOperation converted (''/'' @ tok) = Some m"
    and "operation m = Some oper"
  shows "(env_dereferenceSync env (subsetOf converted m oper) = Some dereferenced \<longrightarrow>
            handleGetApiOperation env ident tok =
              \<lparr>content_text = env_dump env (stripSections dereferenced), isError = Some False\<rparr>
            \<and> tags (stripSections dereferenced) = None
            \<and> webhooks (stripSections dereferenced) = None
            \<and> components (stripSections dereferenced) = None
            \<and> openapi (stripSections dereferenced) = openapi dereferenced
            \<and> servers (stripSections dereferenced) = servers dereferenced
            \<and> info (stripSections dereferenced) = info dereferenced
            \<and> paths (stripSections dereferenced) = paths dereferenced
            \<and> swagger (stripSections dereferenced) = swagger dereferenced)
         \<and> (env_dereferenceSync env (subsetOf converted m oper) = None \<longrightarrow>
            handleGetApiOperation env ident tok =
              \<lparr>content_text = env_dump env (subsetOf converted m oper), isError = Some False\<rparr>
            \<and> tags (subsetOf converted m oper) = tags converted
            \<and> webhooks (subsetOf converted m oper) = webhooks converted
            \<and> components (subsetOf converted m oper) = components converted)"
  using assms
  by (simp add: handleGetApiOperation_reached operationDetail_def stripSections_def subsetOf_def)

lemma deref_subset_createPet:
  "exampleDeref (subsetOf refDoc createPetMatch createPet) =
     Some (refDoc\<lparr>paths := Some [(''/pets'',
        emptyItem\<lparr>post := Some (createPet\<lparr>requestBody := Some (JObj [(''required'', JBool True)])\<rparr>)\<rparr>)]\<rparr>)"
  unfolding subset_createPet
  by (simp add: exampleDeref_def inlineItem_def inlinePet_def emptyItem_def createPet_def)

theorem detail_sections_witness:
  "handleGetApiOperation (exampleEnv (serving refDoc) None exampleDeref) ''refs'' ''createPet'' =
     \<lparr>content_text = ''openapi; info; paths; /pets post'', isError = Some False\<rparr>
   \<and> handleGetApiOperation (exampleEnv (serving refDoc) None failingDeref) ''refs'' ''createPet'' =
     \<lparr>content_text = ''tags; components; webhooks; openapi; info; paths; /pets post'',
      isError = Some False\<rparr>"
proof -
  let ?ok = "exampleEnv (serving refDoc) None exampleDeref"
  let ?ko = "exampleEnv (serving refDoc) None failingDeref"
  let ?dd = "refDoc\<lparr>paths := Some [(''/pets'',
        emptyItem\<lparr>post := Some (createPet\<lparr>requestBody := Some (JObj [(''required'', JBool True)])\<rparr>)\<rparr>)]\<rparr>"
  have a: "''refs'' \<noteq> []" and b: "''createPet'' \<noteq> []"
    by simp_all
  have m: "matchOperation refDoc (''/'' @ ''createPet'') = Some createPetMatch"
    using matchOperation_createPet by simp
  have o: "operation createPetMatch = Some createPet"
    by (simp add: createPetMatch_def)
  have d1: "env_dereferenceSync ?ok (subsetOf refDoc createPetMatch createPet) = Some ?dd"
    using deref_subset_createPet by (simp add: exampleEnv_def)
  have d2: "env_dereferenceSync ?ko (subsetOf refDoc createPetMatch createPet) = None"
    by (simp add: exampleEnv_def failingDeref_def)
  have dump: "env_dump ?ok = exampleDump" "env_dump ?ko = exampleDump"
    by (simp_all add: exampleEnv_def)
  have t1: "exampleDump (stripSections ?dd) = ''openapi; info; paths; /pets post''"
    by (simp add: stripSections_def exampleDump_def topLevelKeys_def refDoc_def mkDocument_def
        itemOperations_def methods_def methodOp_def emptyItem_def)
  from detail_sections [OF a b convertedOpenapi_refDoc m o, where dereferenced = ?dd] d1
  have r1: "handleGetApiOperation ?ok ''refs'' ''createPet'' =
              \<lparr>content_text = env_dump ?ok (stripSections ?dd), isError = Some False\<rparr>"
    by blast
  from detail_sections [OF a b convertedOpenapi_refDoc m o] d2
  have r2: "handleGetApiOperation ?ko ''refs'' ''createPet'' =
              \<lparr>content_text = env_dump ?ko (subsetOf refDoc createPetMatch createPet), isError = Some False\<rparr>"
    by blast
  from r1 r2 show ?thesis
    by (simp add: dump t1 dump_subset_createPet)
qed

text \<open>
  C6 as stated fails on the fallback path: with a dereferencing library that throws, the
  serialised document still has \<^verbatim>\<open>tags\<close>, \<^verbatim>\<open>webhooks\<close> and \<^verbatim>\<open>components\<close>, and the request
  body of the matched operation is still a reference.
\<close>

theorem detail_sections_counterexample:
  "handleGetApiOperation (exampleEnv (serving refDoc) None failingDeref) ''refs'' ''createPet'' =
     \<lparr>content_text = exampleDump (refDoc\<lparr>paths := Some [(''/pets'', emptyItem\<lparr>post := Some createPet\<rparr>)]\<rparr>),
      isError = Some False\<rparr>
   \<and> tags (refDoc\<lparr>paths := Some [(''/pets'', emptyItem\<lparr>post := Some createPet\<rparr>)]\<rparr>)
       = Some (JArr [JObj [(''name'', JStr ''pets'')]])
   \<and> webhooks (refDoc\<lparr>paths := Some [(''/pets'', emptyItem\<lparr>post := Some createPet\<rparr>)]\<rparr>)
       = Some (JObj [])
   \<and> components (refDoc\<lparr>paths := Some [(''/pets'', emptyItem\<lparr>post := Some createPet\<rparr>)]\<rparr>)
       = Some (JObj [(''requestBodies'', JObj [(''Pet'', JObj [(''required'', JBool True)])])])
   \<and> requestBody createPet = Some (JObj [(''$ref'', JStr ''#/components/requestBodies/Pet'')])
   \<and> exampleDump (refDoc\<lparr>paths := Some [(''/pets'', emptyItem\<lparr>post := Some createPet\<rparr>)]\<rparr>)
       = ''tags; components; webhooks; openapi; info; paths; /pets post''"
proof -
  have r: "handleGetApiOperation (exampleEnv (serving refDoc) None failingDeref) ''refs'' ''createPet'' =
             \<lparr>content_text = exampleDump (subsetOf refDoc createPetMatch createPet), isError = Some False\<rparr>"
    using handleGetApiOperation_reached [OF _ _ convertedOpenapi_refDoc, of "''refs''" "''createPet''" None failingDeref]
      matchOperation_createPet
    by (simp add: createPetMatch_def operationDetail_def exampleEnv_def failingDeref_def)
  have f: "tags refDoc = Some (JArr [JObj [(''name'', JStr ''pets'')]])
           \<and> webhooks refDoc = Some (JObj [])
           \<and> components refDoc = Some (JObj [(''requestBodies'', JObj [(''Pet'', JObj [(''required'', JBool True)])])])"
    by (simp add: refDoc_def)
  have b: "requestBody createPet = Some (JObj [(''$ref'', JStr ''#/components/requestBodies/Pet'')])"
    by (simp add: createPet_def)
  from r f b dump_subset_createPet show ?thesis
    by (simp add: subset_createPet)
qed

lemma set_itemOperationIds:
  "set (itemOperationIds item) =
     {i. i \<noteq> [] \<and> (\<exists>k \<in> set methods. \<exists>oper. methodOp item k = Some oper \<and> operationId oper = Some i)}"
  by (auto simp: itemOperationIds_def methods_def methodOp_def Option.bind_eq_Some_conv
      split: option.splits if_splits)

lemma set_declaredIds_item:
  "set (concat (map (\<lambda>e. case operationId (snd (snd e)) of None \<Rightarrow> [] | Some i \<Rightarrow> [i]) (itemOperations e))) =
     {i. \<exists>k \<in> set methods. \<exists>oper. methodOp (snd e) k = Some oper \<and> operationId oper = Some i}"
  by (auto simp: itemOperations_def split: option.splits) force

lemma set_operationIds: "set (operationIds ps) = set (declaredIds ps) - {[]}"
proof (induction ps)
  case Nil
  show ?case by (simp add: operationIds_def declaredIds_def allOperations_def)
next
  case (Cons e ps)
  have d: "declaredIds (e # ps) =
             concat (map (\<lambda>e. case operationId (snd (snd e)) of None \<Rightarrow> [] | Some i \<Rightarrow> [i]) (itemOperations e))
             @ declaredIds ps"
    by (simp add: declaredIds_def allOperations_def)
  have o: "operationIds (e # ps) = itemOperationIds (snd e) @ operationIds ps"
    by (simp add: operationIds_def)
  have sd: "set (declaredIds (e # ps)) =
              {i. \<exists>k \<in> set methods. \<exists>oper. methodOp (snd e) k = Some oper \<and> operationId oper = Some i}
              \<union> set (declaredIds ps)"
    unfolding d set_append set_declaredIds_item ..
  have so: "set (operationIds (e # ps)) =
              {i. i \<noteq> [] \<and> (\<exists>k \<in> set methods. \<exists>oper. methodOp (snd e) k = Some oper \<and> operationId oper = Some i)}
              \<union> set (operationIds ps)"
    unfolding o set_append set_itemOperationIds ..
  show ?case
    unfolding sd so using Cons.IH by auto
qed

text \<open>
  C4 (amended). When the token matches no operation the result has \<^verbatim>\<open>isError: true\<close>, and for
  a document with paths the message lists every non-empty operationId of the document and
  every route key. An operation whose operationId is the empty string is left out of the list.
\<close>

theorem not_found_enumerates:
  assumes "ident \<noteq> []" and "tok \<noteq> []"
    and "convertedOpenapi env ident = Inr converted"
    and "matchOperation converted (''/'' @ tok) = None"
  shows "isError (handleGetApiOperation env ident tok) = Some True
         \<and> (paths converted = Some ps \<longrightarrow>
              content_text (handleGetApiOperation env ident tok) =
                ''Error: Operation wasn'' @ [CHR 0x27] @ ''t found. Available IDs: ''
                @ join '', '' (operationIds ps) @ ''. Routes: '' @ join '', '' (routes ps)
              \<and> set (operationIds ps) = set (declaredIds ps) - {[]}
              \<and> routes ps = map fst ps)"
  using assms
  by (simp add: handleGetApiOperation_reached notFound_def errorResult_def notFoundMessage_def
      set_operationIds routes_def split: option.splits)


lemma matchOperation_refDoc_nothing: "matchOperation refDoc ''/nothing'' = None"
  by (simp add: matchOperation_def paths_refDoc directGet_def refPaths_def idMatches_def methods_def
      methodOp_def emptyItem_def listPets_def createPet_def mkOperation_def)

lemma operationIds_refPaths: "operationIds refPaths = [''listPets'', ''createPet'', ''listOwners'']"
  by (simp add: operationIds_def itemOperationIds_def refPaths_def emptyItem_def listPets_def
      createPet_def mkOperation_def)

theorem not_found_enumerates_witness:
  "isError (handleGetApiOperation (exampleEnv (serving refDoc) None exampleDeref) ''refs'' ''nothing'') = Some True
   \<and> content_text (handleGetApiOperation (exampleEnv (serving refDoc) None exampleDeref) ''refs'' ''nothing'') =
       ''Error: Operation wasn'' @ [CHR 0x27]
       @ ''t found. Available IDs: listPets, createPet, listOwners. Routes: /pets, /owners''
   \<and> set (declaredIds refPaths) - {[]} = {''listPets'', ''createPet'', ''listOwners''}"
proof -
  have a: "''refs'' \<noteq> []" and b: "''nothing'' \<noteq> []"
    by simp_all
  have m: "matchOperation refDoc (''/'' @ ''nothing'') = None"
    using matchOperation_refDoc_nothing by simp
  have r: "routes refPaths = [''/pets'', ''/owners'']"
    by (simp add: routes_def refPaths_def)
  from not_found_enumerates [OF a b convertedOpenapi_refDoc m, of None exampleDeref refPaths] paths_refDoc
  show ?thesis
    by (simp add: operationIds_refPaths r)
qed

lemma convertedOpenapi_blankIdDoc: "convertedOpenapi (exampleEnv (serving blankIdDoc) c deref) ident = Inr blankIdDoc"
  unfolding blankIdDoc_def by (rule convertedOpenapi_mkDocument)

text \<open>
  C4 as stated fails: the empty operationId of \<^verbatim>\<open>/blank\<close> is declared, but it is not among
  the identifiers of the message.
\<close>

theorem not_found_enumerates_counterexample:
  "[] \<in> set (declaredIds blankIdPaths)
   \<and> [] \<notin> set (operationIds blankIdPaths)
   \<and> handleGetApiOperation (exampleEnv (serving blankIdDoc) None exampleDeref) ''blank'' ''nothing'' =
       \<lparr>content_text = ''Error: Operation wasn'' @ [CHR 0x27]
          @ ''t found. Available IDs: listPets. Routes: /pets, /blank'',
        isError = Some True\<rparr>"
proof -
  have d: "declaredIds blankIdPaths = [''listPets'', []]"
    by (simp add: declaredIds_def allOperations_def itemOperations_def blankIdPaths_def methods_def
        methodOp_def emptyItem_def listPets_def mkOperation_def)
  have o: "operationIds blankIdPaths = [''listPets'']"
    by (simp add: operationIds_def itemOperationIds_def blankIdPaths_def emptyItem_def listPets_def
        mkOperation_def)
  have p: "paths blankIdDoc = Some blankIdPaths"
    by (simp add: blankIdDoc_def mkDocument_def)
  have m: "matchOperation blankIdDoc (''/'' @ ''nothing'') = None"
    by (simp add: matchOperation_def p directGet_def blankIdPaths_def idMatches_def methods_def
        methodOp_def emptyItem_def listPets_def mkOperation_def)
  have r: "routes blankIdPaths = [''/pets'', ''/blank'']"
    by (simp add: routes_def blankIdPaths_def)
  have "handleGetApiOperation (exampleEnv (serving blankIdDoc) None exampleDeref) ''blank'' ''nothing'' =
          notFound blankIdDoc"
    using handleGetApiOperation_reached [OF _ _ convertedOpenapi_blankIdDoc, of "''blank''" "''nothing''" None exampleDeref] m
    by simp
  then show ?thesis
    by (simp add: d o notFound_def p notFoundMessage_def r errorResult_def)
qed

text \<open>
  C10 (amended). For a non-empty token the handler matches on the token with one \<^verbatim>\<open>/\<close> put
  in front. A token that is a route key without its leading \<^verbatim>\<open>/\<close> gets the GET operation of
  that route, when it has one. The direct lookup can only hit the route whose key is \<^verbatim>\<open>/\<close>
  followed by the token, which is never the token itself; when that lookup finds nothing the
  token as given, a leading \<^verbatim>\<open>/\<close> included, is compared with the operationIds.
\<close>

theorem slash_prefix:
  assumes "ident \<noteq> []" and "tok \<noteq> []"
    and "convertedOpenapi env ident = Inr converted"
    and "paths converted = Some ps"
    and "distinct (map fst ps)"
  shows "handleGetApiOperation env ident tok =
           (case matchOperation converted (''/'' @ tok) of
              None \<Rightarrow> notFound converted
            | Some m \<Rightarrow>
                (case operation m of
                   None \<Rightarrow> notFound converted
                 | Some oper \<Rightarrow> operationDetail env (subsetOf converted m oper)))
         \<and> ((''/'' @ tok, item) \<in> set ps \<and> get item = Some g \<longrightarrow>
              matchOperation converted (''/'' @ tok) =
                Some \<lparr>operation = Some g, originalPath = ''/'' @ tok, matched_method = ''GET''\<rparr>)
         \<and> (directGet ps (''/'' @ tok) = Some g \<longrightarrow>
              (\<exists>item'. (''/'' @ tok, item') \<in> set ps \<and> get item' = Some g))
         \<and> ''/'' @ tok \<noteq> tok
         \<and> (directGet ps (''/'' @ tok) = None \<longrightarrow>
              matchOperation converted (''/'' @ tok) =
                map_option asMatch (find (hasId tok) (allOperations ps)))"
proof -
  have A: "handleGetApiOperation env ident tok =
           (case matchOperation converted (''/'' @ tok) of
              None \<Rightarrow> notFound converted
            | Some m \<Rightarrow>
                (case operation m of
                   None \<Rightarrow> notFound converted
                 | Some oper \<Rightarrow> operationDetail env (subsetOf converted m oper)))"
    using assms(1-3) by (rule handleGetApiOperation_reached)
  have B: "matchOperation converted (''/'' @ tok) =
                Some \<lparr>operation = Some g, originalPath = ''/'' @ tok, matched_method = ''GET''\<rparr>"
    if "(''/'' @ tok, item) \<in> set ps \<and> get item = Some g"
  proof -
    from that assms(5) have "map_of ps (''/'' @ tok) = Some item"
      by (simp add: map_of_is_SomeI)
    with that assms(4) show ?thesis
      by (simp add: matchOperation_def directGet_def)
  qed
  have C: "\<exists>item'. (''/'' @ tok, item') \<in> set ps \<and> get item' = Some g"
    if "directGet ps (''/'' @ tok) = Some g"
    using that by (auto simp: directGet_def Option.bind_eq_Some_conv dest: map_of_SomeD)
  have D: "''/'' @ tok \<noteq> tok"
    by simp
  have E: "matchOperation converted (''/'' @ tok) =
                map_option asMatch (find (hasId tok) (allOperations ps))"
    if "directGet ps (''/'' @ tok) = None"
    using that assms(4) by (simp add: matchOperation_def matchById_find)
  from A B C D E show ?thesis by blast
qed

lemma paths_slashDoc: "paths slashDoc = Some slashPaths"
  by (simp add: slashDoc_def mkDocument_def)

lemma convertedOpenapi_slashDoc:
  "convertedOpenapi (exampleEnv (serving slashDoc) c deref) ident = Inr slashDoc"
  unfolding slashDoc_def by (rule convertedOpenapi_mkDocument)

lemma allOperations_slashPaths:
  "allOperations slashPaths =
     [(''/'', ''get'', mkOperation (Some ''root'') None),
      (''/pets'', ''get'', listPets),
      (''//pets'', ''get'', mkOperation (Some ''shadowPets'') None),
      (''/ids'', ''put'', mkOperation (Some ''/pets/{id}'') None),
      (''/pets/{id}'', ''get'', mkOperation (Some ''getPet'') None)]"
  by (simp add: allOperations_def itemOperations_def slashPaths_def methods_def methodOp_def emptyItem_def)

theorem slash_prefix_witness:
  "matchOperation slashDoc ''/pets'' =
     Some \<lparr>operation = Some listPets, originalPath = ''/pets'', matched_method = ''GET''\<rparr>
   \<and> handleGetApiOperation (exampleEnv (serving slashDoc) None exampleDeref) ''slashes'' ''pets'' =
     \<lparr>content_text = ''openapi; info; paths; /pets get'', isError = Some False\<rparr>
   \<and> matchOperation slashDoc ''//pets/{id}'' =
     Some \<lparr>operation = Some (mkOperation (Some ''/pets/{id}'') None), originalPath = ''/ids'',
           matched_method = ''PUT''\<rparr>"
proof -
  let ?env = "exampleEnv (serving slashDoc) None exampleDeref"
  have a: "''slashes'' \<noteq> []" and b: "''pets'' \<noteq> []" and b': "''/pets/{id}'' \<noteq> []"
    by simp_all
  have dist: "distinct (map fst slashPaths)"
    by (simp add: slashPaths_def)
  have route: "(''/'' @ ''pets'', emptyItem\<lparr>get := Some listPets\<rparr>) \<in> set slashPaths
               \<and> get (emptyItem\<lparr>get := Some listPets\<rparr>) = Some listPets"
    by (simp add: slashPaths_def)
  have nodirect: "directGet slashPaths (''/'' @ ''/pets/{id}'') = None"
    by (simp add: directGet_def slashPaths_def)
  have byid: "find (hasId ''/pets/{id}'') (allOperations slashPaths) =
                Some (''/ids'', ''put'', mkOperation (Some ''/pets/{id}'') None)"
    by (simp add: allOperations_slashPaths hasId_def listPets_def mkOperation_def)
  note T1 = slash_prefix [OF a b convertedOpenapi_slashDoc paths_slashDoc dist,
      of None exampleDeref "emptyItem\<lparr>get := Some listPets\<rparr>" listPets]
  note T2 = slash_prefix [OF a b' convertedOpenapi_slashDoc paths_slashDoc dist, of None exampleDeref]
  from T1 route have r1: "matchOperation slashDoc (''/'' @ ''pets'') =
     Some \<lparr>operation = Some listPets, originalPath = ''/'' @ ''pets'', matched_method = ''GET''\<rparr>"
    by blast
  from T1 have h: "handleGetApiOperation ?env ''slashes'' ''pets'' =
           (case matchOperation slashDoc (''/'' @ ''pets'') of
              None \<Rightarrow> notFound slashDoc
            | Some m \<Rightarrow>
                (case operation m of
                   None \<Rightarrow> notFound slashDoc
                 | Some oper \<Rightarrow> operationDetail ?env (subsetOf slashDoc m oper)))"
    by blast
  have r2: "handleGetApiOperation ?env ''slashes'' ''pets'' =
     \<lparr>content_text = ''openapi; info; paths; /pets get'', isError = Some False\<rparr>"
    unfolding h r1
    by (simp add: operationDetail_def subsetOf_def exampleEnv_def exampleDeref_def stripSections_def
        singleMethodItem_def toLowerCase_def lowerChar_def exampleDump_def topLevelKeys_def
        slashDoc_def mkDocument_def itemOperations_def methods_def methodOp_def emptyItem_def
        inlineItem_def)
  from T2 nodirect byid have r3: "matchOperation slashDoc (''/'' @ ''/pets/{id}'') =
     Some (asMatch (''/ids'', ''put'', mkOperation (Some ''/pets/{id}'') None))"
    by simp
  from r1 r2 r3 show ?thesis
    by (simp add: asMatch_def toUpperCase_methods)
qed

text \<open>
  C10 as stated fails twice. The verbatim route key \<^verbatim>\<open>/pets\<close> does match by the direct
  strategy, namely the route \<^verbatim>\<open>//pets\<close>. And the root route \<^verbatim>\<open>/\<close> without its leading
  \<^verbatim>\<open>/\<close> is the empty token, which the handler refuses before any matching.
\<close>

theorem slash_prefix_counterexample:
  "(''/pets'', emptyItem\<lparr>get := Some listPets\<rparr>) \<in> set slashPaths
   \<and> directGet slashPaths (''/'' @ ''/pets'') = Some (mkOperation (Some ''shadowPets'') None)
   \<and> matchOperation slashDoc (''/'' @ ''/pets'') =
       Some \<lparr>operation = Some (mkOperation (Some ''shadowPets'') None), originalPath = ''//pets'',
             matched_method = ''GET''\<rparr>
   \<and> (''/'', emptyItem\<lparr>get := Some (mkOperation (Some ''root'') None)\<rparr>) \<in> set slashPaths
   \<and> handleGetApiOperation (exampleEnv (serving slashDoc) None exampleDeref) ''slashes'' (drop 1 ''/'') =
       \<lparr>content_text = ''Error: Both '' @ [CHR 0x27] @ ''id'' @ [CHR 0x27] @ '' and '' @ [CHR 0x27]
          @ ''operationIdOrRoute'' @ [CHR 0x27] @ '' parameters are required'',
        isError = Some True\<rparr>"
  by (simp add: slashPaths_def directGet_def matchOperation_def paths_slashDoc emptyItem_def
      handleGetApiOperation_def)

lemma startsWith_nonempty: "startsWith v ''3.'' \<Longrightarrow> v \<noteq> []"
  by (auto simp: startsWith_def)

text \<open>
  C2 (amended). For a Swagger input the result of normalisation is decided by the answer of
  the converter alone: the call fails with \<^verbatim>\<open>Conversion failed\<close> when the converter gives
  no document or one whose \<^verbatim>\<open>openapi\<close> field is missing or empty, and otherwise the
  converter's document is used as it is. A document whose \<^verbatim>\<open>openapi\<close> starts with \<^verbatim>\<open>3.\<close> is
  always accepted; that the accepted document starts with \<^verbatim>\<open>3.\<close> is not checked.
\<close>

theorem swagger_conversion:
  assumes "env_searchOpenapi env ident = Inr (Some found)"
    and "openapiJson found = Some openapiJ"
    and "isSwagger openapiJ"
  shows "convertedOpenapi env ident =
           (case convertSwaggerToOpenapi env (openapiUrl found) of
              None \<Rightarrow> Inl ''Conversion failed''
            | Some d \<Rightarrow>
                (case openapi d of
                   None \<Rightarrow> Inl ''Conversion failed''
                 | Some v \<Rightarrow> if v = [] then Inl ''Conversion failed'' else Inr d))
         \<and> (convertSwaggerToOpenapi env (openapiUrl found) = Some converted
              \<and> openapi converted = Some version3 \<and> startsWith version3 ''3.'' \<longrightarrow>
              convertedOpenapi env ident = Inr converted)
         \<and> (convertedOpenapi env ident = Inr accepted \<longrightarrow>
              convertSwaggerToOpenapi env (openapiUrl found) = Some accepted
              \<and> (\<exists>v. openapi accepted = Some v \<and> v \<noteq> []))
         \<and> (ident \<noteq> [] \<and> convertedOpenapi env ident = Inl ''Conversion failed'' \<longrightarrow>
              handleGetApiOverview env ident =
                \<lparr>content_text = ''Error: Conversion failed'', isError = Some True\<rparr>
              \<and> (tok \<noteq> [] \<longrightarrow>
                   handleGetApiOperation env ident tok =
                     \<lparr>content_text = ''Error: Conversion failed'', isError = Some True\<rparr>))"
proof -
  have eq: "convertedOpenapi env ident =
           (case convertSwaggerToOpenapi env (openapiUrl found) of
              None \<Rightarrow> Inl ''Conversion failed''
            | Some d \<Rightarrow>
                (case openapi d of
                   None \<Rightarrow> Inl ''Conversion failed''
                 | Some v \<Rightarrow> if v = [] then Inl ''Conversion failed'' else Inr d))"
    using assms by (simp add: convertedOpenapi_def truthyStr_def split: option.splits)
  have three: "convertedOpenapi env ident = Inr converted"
    if "convertSwaggerToOpenapi env (openapiUrl found) = Some converted
              \<and> openapi converted = Some version3 \<and> startsWith version3 ''3.''"
    using that startsWith_nonempty [of version3] by (simp add: eq)
  have acc: "convertSwaggerToOpenapi env (openapiUrl found) = Some accepted
              \<and> (\<exists>v. openapi accepted = Some v \<and> v \<noteq> [])"
    if "convertedOpenapi env ident = Inr accepted"
    using that unfolding eq by (auto split: option.splits if_splits)
  have fail: "handleGetApiOverview env ident =
                \<lparr>content_text = ''Error: Conversion failed'', isError = Some True\<rparr>
              \<and> (tok \<noteq> [] \<longrightarrow>
                   handleGetApiOperation env ident tok =
                     \<lparr>content_text = ''Error: Conversion failed'', isError = Some True\<rparr>)"
    if "ident \<noteq> [] \<and> convertedOpenapi env ident = Inl ''Conversion failed''"
    using that by (simp add: handleGetApiOverview_def handleGetApiOperation_def errorResult_def)
  from eq three acc fail show ?thesis by blast
qed

lemma isSwagger_swaggerDoc: "isSwagger swaggerDoc"
  by (simp add: isSwagger_def swaggerDoc_def)

lemma generateOverview_openapi_update:
  "generateOverview urlOrigin hostname (d\<lparr>openapi := a\<rparr>) = generateOverview urlOrigin hostname d"
proof -
  let ?d = "d\<lparr>openapi := a\<rparr>"
  have r: "rootServersOf ?d = rootServersOf d"
    by (simp add: rootServersOf_def)
  have h: "headerLines urlOrigin ?d = headerLines urlOrigin d"
    by (simp add: headerLines_def r split: option.splits)
  have c: "collectItems urlOrigin hostname ?d = collectItems urlOrigin hostname d"
    by (simp add: collectItems_def r split: option.splits)
  have o: "outputLines urlOrigin hostname ?d = outputLines urlOrigin hostname d"
    by (simp add: outputLines_def h c)
  show ?thesis
    by (simp add: generateOverview_def endpointCount_def o)
qed

lemma generateOverview_swagger_update:
  "generateOverview urlOrigin hostname (d\<lparr>swagger := b\<rparr>) = generateOverview urlOrigin hostname d"
proof -
  let ?d = "d\<lparr>swagger := b\<rparr>"
  have r: "rootServersOf ?d = rootServersOf d"
    by (simp add: rootServersOf_def)
  have h: "headerLines urlOrigin ?d = headerLines urlOrigin d"
    by (simp add: headerLines_def r split: option.splits)
  have c: "collectItems urlOrigin hostname ?d = collectItems urlOrigin hostname d"
    by (simp add: collectItems_def r split: option.splits)
  have o: "outputLines urlOrigin hostname ?d = outputLines urlOrigin hostname d"
    by (simp add: outputLines_def h c)
  show ?thesis
    by (simp add: generateOverview_def endpointCount_def o)
qed

theorem swagger_conversion_witness:
  "convertedOpenapi (exampleEnv (serving swaggerDoc) (Some convertedThree) exampleDeref) ''empty''
     = Inr convertedThree
   \<and> handleGetApiOverview (exampleEnv (serving swaggerDoc) None exampleDeref) ''empty'' =
       \<lparr>content_text = ''Error: Conversion failed'', isError = Some True\<rparr>
   \<and> handleGetApiOperation (exampleEnv (serving swaggerDoc) (Some swaggerDoc) exampleDeref) ''empty'' ''listPets'' =
       \<lparr>content_text = ''Error: Conversion failed'', isError = Some True\<rparr>"
proof -
  let ?found = "\<lparr>openapiUrl = ''https://example.com/openapi.json'', openapiJson = Some swaggerDoc\<rparr>"
  let ?e3 = "exampleEnv (serving swaggerDoc) (Some convertedThree) exampleDeref"
  let ?e0 = "exampleEnv (serving swaggerDoc) None exampleDeref"
  let ?e2 = "exampleEnv (serving swaggerDoc) (Some swaggerDoc) exampleDeref"
  have s: "env_searchOpenapi ?e3 ''empty'' = Inr (Some ?found)"
       "env_searchOpenapi ?e0 ''empty'' = Inr (Some ?found)"
       "env_searchOpenapi ?e2 ''empty'' = Inr (Some ?found)"
    by (simp_all add: exampleEnv_def serving_def)
  have j: "openapiJson ?found = Some swaggerDoc"
    by simp
  have c3: "convertSwaggerToOpenapi ?e3 (openapiUrl ?found) = Some convertedThree
            \<and> openapi convertedThree = Some ''3.0.1'' \<and> startsWith ''3.0.1'' ''3.''"
    by (simp add: convertSwaggerToOpenapi_def exampleEnv_def convertedThree_def startsWith_def)
  have c0: "convertSwaggerToOpenapi ?e0 (openapiUrl ?found) = None"
    by (simp add: convertSwaggerToOpenapi_def exampleEnv_def)
  have c2: "convertSwaggerToOpenapi ?e2 (openapiUrl ?found) = Some swaggerDoc" "openapi swaggerDoc = None"
    by (simp_all add: convertSwaggerToOpenapi_def exampleEnv_def swaggerDoc_def)
  note T3 = swagger_conversion [OF s(1) j isSwagger_swaggerDoc, of convertedThree "''3.0.1''"]
  note T0 = swagger_conversion [OF s(2) j isSwagger_swaggerDoc]
  note T2 = swagger_conversion [OF s(3) j isSwagger_swaggerDoc, where tok = "''listPets''"]
  from T3 c3 have r1: "convertedOpenapi ?e3 ''empty'' = Inr convertedThree"
    by blast
  from T0 c0 have f0: "convertedOpenapi ?e0 ''empty'' = Inl ''Conversion failed''"
    by simp
  from T0 f0 have r2: "handleGetApiOverview ?e0 ''empty'' =
       \<lparr>content_text = ''Error: Conversion failed'', isError = Some True\<rparr>"
    by simp
  from T2 c2 have f2: "convertedOpenapi ?e2 ''empty'' = Inl ''Conversion failed''"
    by simp
  from T2 f2 have r3: "handleGetApiOperation ?e2 ''empty'' ''listPets'' =
       \<lparr>content_text = ''Error: Conversion failed'', isError = Some True\<rparr>"
    by simp
  from r1 r2 r3 show ?thesis by simp
qed

text \<open>
  C2 as stated fails: a converter that answers a document with \<^verbatim>\<open>openapi: "2.0"\<close> gets it
  accepted, and the overview is produced from it without an error.
\<close>

theorem swagger_conversion_counterexample:
  "isSwagger swaggerDoc
   \<and> convertedOpenapi (exampleEnv (serving swaggerDoc) (Some convertedTwo) exampleDeref) ''empty''
       = Inr convertedTwo
   \<and> openapi convertedTwo = Some ''2.0''
   \<and> \<not> startsWith ''2.0'' ''3.''
   \<and> swagger convertedTwo = Some (JStr ''2.0'')
   \<and> isError (handleGetApiOverview (exampleEnv (serving swaggerDoc) (Some convertedTwo) exampleDeref) ''empty'')
       = Some False"
proof -
  let ?env = "exampleEnv (serving swaggerDoc) (Some convertedTwo) exampleDeref"
  have c: "convertedOpenapi ?env ''empty'' = Inr convertedTwo"
    using isSwagger_swaggerDoc
    by (simp add: convertedOpenapi_def exampleEnv_def serving_def convertSwaggerToOpenapi_def
        convertedTwo_def truthyStr_def)
  have g: "generateOverview exampleUrlOrigin ''empty'' convertedTwo
             = generateOverview exampleUrlOrigin ''empty'' emptyDoc"
    unfolding convertedTwo_def swaggerDoc_def
    by (simp only: generateOverview_openapi_update generateOverview_swagger_update)
  have small: "length (generateOverview exampleUrlOrigin ''empty'' convertedTwo) \<le> 250000"
    unfolding g by (simp add: generateOverview_empty)
  have h: "isError (handleGetApiOverview ?env ''empty'') = Some False"
    using c small by (simp add: handleGetApiOverview_def Let_def exampleEnv_def)
  have v: "openapi convertedTwo = Some ''2.0'' \<and> swagger convertedTwo = Some (JStr ''2.0'')"
    by (simp add: convertedTwo_def swaggerDoc_def)
  from isSwagger_swaggerDoc c v h show ?thesis
    by (simp add: startsWith_def)
qed

end
